theory Spec2Isabelle
  imports Main "HOL-Library.Word"
begin

unbundle bit_operations_syntax

section \<open>Values, tokens, positions and AST nodes\<close>

text \<open>
  The parser of \<^verbatim>\<open>src/index.ts\<close> is the class \<^verbatim>\<open>TypeScriptParser\<close>, which extends
  the parser class of the acorn library (the Base Grammar Engine of the specification).
  Methods reached through \<^verbatim>\<open>super.\<close> and members that the class only inherits are not
  part of this repository; the embedding takes them as the fields of an \<open>Engine\<close>
  that every method calling them receives.
\<close>

datatype js_value = JUndefined | JNull | JBool bool | JNum int | JStr string


text \<open>
  Token types are objects compared by identity: \<^verbatim>\<open>tt.*\<close> are acorn's,
  \<^verbatim>\<open>tokTypes.*\<close> the ones this package adds (\<open>tok_word w\<close> is \<^verbatim>\<open>tokTypes[w]\<close>, the
  type of a TypeScript word such as \<^verbatim>\<open>readonly\<close>; \<open>tt_keyword w\<close> is
  \<^verbatim>\<open>keywordTypes[w]\<close>).
\<close>

datatype TokenType =
  tt_name | tt_eof | tt_num | tt_string
  | tt_relational | tt_bitShift | tt_prefix | tt_plusMin
  | tt_comma | tt_colon | tt_question | tt_questionDot | tt_eq | tt_semi | tt_dot
  | tt_parenL | tt_parenR | tt_bracketL | tt_bracketR | tt_braceL | tt_braceR
  | tt_star | tt_slash | tt_ellipsis | tt_privateId | tt_backQuote
  | tt_keyword string
  | tok_word string
  | tok_jsxTagStart | tok_jsxTagEnd | tok_jsxText | tok_jsxName | tok_at

datatype TokContext =
  b_stat | b_expr | b_tmpl | p_stat | p_expr | q_tmpl | f_stat | f_expr | f_expr_gen | f_gen
  | tc_oTag | tc_cTag | tc_expr

text \<open>A \<^verbatim>\<open>Position\<close> is read by the code through \<^verbatim>\<open>line\<close>, \<^verbatim>\<open>column\<close> and \<^verbatim>\<open>index\<close>.\<close>

record Position =
  line :: nat
  column :: nat
  index :: nat

record SourceLocation =
  loc_start :: Position
  loc_end :: "Position option"

text \<open>
  An AST node is a JavaScript object; the datatype has one selector per property
  that the methods embedded below read or write. \<^verbatim>\<open>node.range\<close> exists only with
  \<^verbatim>\<open>options.ranges\<close>. A boolean selector holds the truthiness of the property, an
  optional one is \<open>None\<close> where the property is missing.
\<close>

datatype node = Node
  (node_type: string)
  (node_start: nat)
  (node_end: nat)
  (node_loc: "SourceLocation option")
  (node_range: "(nat \<times> nat) option")
  (node_optional: bool)
  (node_computed: bool)
  (node_typeAnnotation: "node option")
  (node_expression: "node option")
  (node_object: "node option")
  (node_property: "node option")
  (node_init: "node option")
  (node_id: "node option")
  (node_expressions: "node list")
  (node_declarations: "node list")
  (node_elementTypes: "node list")

fun set_node_start :: "nat \<Rightarrow> node \<Rightarrow> node" where
  "set_node_start v (Node ty s e l r opt c ta ex ob pr ini idn exs ds els) =
     Node ty v e l r opt c ta ex ob pr ini idn exs ds els"

fun set_node_end :: "nat \<Rightarrow> node \<Rightarrow> node" where
  "set_node_end v (Node ty s e l r opt c ta ex ob pr ini idn exs ds els) =
     Node ty s v l r opt c ta ex ob pr ini idn exs ds els"

fun set_node_loc :: "SourceLocation option \<Rightarrow> node \<Rightarrow> node" where
  "set_node_loc v (Node ty s e l r opt c ta ex ob pr ini idn exs ds els) =
     Node ty s e v r opt c ta ex ob pr ini idn exs ds els"

fun set_node_range :: "(nat \<times> nat) option \<Rightarrow> node \<Rightarrow> node" where
  "set_node_range v (Node ty s e l r opt c ta ex ob pr ini idn exs ds els) =
     Node ty s e l v opt c ta ex ob pr ini idn exs ds els"

fun set_node_expression :: "node option \<Rightarrow> node \<Rightarrow> node" where
  "set_node_expression v (Node ty s e l r opt c ta ex ob pr ini idn exs ds els) =
     Node ty s e l r opt c ta v ob pr ini idn exs ds els"

fun set_node_typeAnnotation :: "node option \<Rightarrow> node \<Rightarrow> node" where
  "set_node_typeAnnotation v (Node ty s e l r opt c ta ex ob pr ini idn exs ds els) =
     Node ty s e l r opt c v ex ob pr ini idn exs ds els"

fun set_node_init :: "node option \<Rightarrow> node \<Rightarrow> node" where
  "set_node_init v (Node ty s e l r opt c ta ex ob pr ini idn exs ds els) =
     Node ty s e l r opt c ta ex ob pr v idn exs ds els"

fun set_node_id :: "node option \<Rightarrow> node \<Rightarrow> node" where
  "set_node_id v (Node ty s e l r opt c ta ex ob pr ini idn exs ds els) =
     Node ty s e l r opt c ta ex ob pr ini v exs ds els"

fun set_node_declarations :: "node list \<Rightarrow> node \<Rightarrow> node" where
  "set_node_declarations v (Node ty s e l r opt c ta ex ob pr ini idn exs ds els) =
     Node ty s e l r opt c ta ex ob pr ini idn exs v els"

fun set_node_elementTypes :: "node list \<Rightarrow> node \<Rightarrow> node" where
  "set_node_elementTypes v (Node ty s e l r opt c ta ex ob pr ini idn exs ds els) =
     Node ty s e l r opt c ta ex ob pr ini idn exs ds v"

text \<open>
  Diagnostic messages. The templates of \<^verbatim>\<open>./error\<close> (\<^verbatim>\<open>TypeScriptError.*\<close>) stay
  symbolic, with the modifiers they are instantiated with; string literals of
  \<^verbatim>\<open>index.ts\<close> are \<open>Msg\<close>. Values thrown by the code are a \<^verbatim>\<open>SyntaxError\<close> (position,
  message), a \<^verbatim>\<open>TypeError\<close> of the runtime, or anything else.
\<close>

datatype TypeScriptError =
  InitializerNotAllowedInAmbientContext
  | ConstInitiailizerMustBeStringOrNumericLiteralOrLiteralEnumReference
  | OptionalTypeBeforeRequired
  | MixedLabeledAndUnlabeledElements
  | InvalidModifiersOrder string string
  | IncompatibleModifiers string string
  | DuplicateModifier string
  | DuplicateAccessibilityModifier
  | InvalidModifierOnTypeMember
  | InvalidModifierOnTypeParameterPositions

datatype message = Msg string | TSError TypeScriptError

datatype thrown =
  SyntaxError nat message
  | TypeError
  | OtherError string

section \<open>Parser state\<close>

text \<open>
  \<^verbatim>\<open>LookaheadState\<close> has the sixteen properties that \<^verbatim>\<open>getCurLookaheadState\<close>,
  \<^verbatim>\<open>cloneCurLookaheadState\<close> and \<^verbatim>\<open>setLookaheadState\<close> copy (\<^verbatim>\<open>value\<close>, \<^verbatim>\<open>type\<close>,
  \<^verbatim>\<open>start\<close>, \<^verbatim>\<open>end\<close> and \<^verbatim>\<open>context\<close> carry a suffix here). \<^verbatim>\<open>context\<close> is an array, a
  mutable object: the state holds a reference to it, and the arrays live in the store
  of the parser (\<open>arrays\<close>, with \<open>fresh\<close> the next unused reference).
  \<^verbatim>\<open>curPosition\<close> is the method object of that name.
\<close>

type_synonym ref = nat

datatype method_ref = Method string

record LookaheadState =
  pos :: nat
  value_tok :: js_value
  type_tok :: TokenType
  start_tok :: nat
  end_tok :: nat
  context_stack :: ref
  startLoc :: Position
  lastTokEndLoc :: Position
  endLoc :: Position
  lastTokEnd :: nat
  lastTokStart :: nat
  lastTokStartLoc :: Position
  curLine :: nat
  lineStart :: nat
  curPosition :: method_ref
  containsEsc :: bool

text \<open>
  A scope of the scope stack: the base engine's \<^verbatim>\<open>flags\<close>, \<^verbatim>\<open>var\<close>, \<^verbatim>\<open>lexical\<close>,
  \<^verbatim>\<open>functions\<close> and the five arrays that \<^verbatim>\<open>enterScope\<close> (lines 5338-5355) adds.
\<close>

record Scope =
  scope_flags :: "32 word"
  scope_var :: "string list"
  scope_lexical :: "string list"
  scope_functions :: "string list"
  scope_types :: "string list"
  scope_enums :: "string list"
  scope_constEnums :: "string list"
  scope_classes :: "string list"
  scope_exportOnlyBindings :: "string list"

text \<open>
  The parser object: the sixteen properties above, the input (UTF-16 code units), the
  store of context arrays, and the other properties the embedded methods use
  (\<^verbatim>\<open>preValue\<close> and \<^verbatim>\<open>preToken\<close> are \<^verbatim>\<open>undefined\<close> until \<^verbatim>\<open>finishToken\<close> sets them).
  \<open>reported\<close> and \<open>raiseRecoverable_throws\<close> describe the base engine's channel for
  recoverable diagnostics (see \<open>super_raiseRecoverable\<close>).
\<close>

record Parser = LookaheadState +
  input :: "nat list"
  arrays :: "ref \<Rightarrow> TokContext list"
  fresh :: ref
  isLookahead :: bool
  isAmbientContext :: bool
  inType :: bool
  exprAllowed :: bool
  preValue :: js_value
  preToken :: "TokenType option"
  options_ranges :: bool
  raiseRecoverable_throws :: bool
  reported :: "(nat \<times> message) list"
  scopeStack :: "Scope list"
  importsStack :: "string list list"
  inModule :: bool
  undefinedExports :: "string list"

section \<open>Snapshots: getCurLookaheadState, cloneCurLookaheadState, setLookaheadState\<close>

text \<open>
  Lines 569-588. The object literal copies sixteen properties of \<^verbatim>\<open>this\<close>;
  \<^verbatim>\<open>context: this.context\<close> copies the reference, not the array.
\<close>

definition getCurLookaheadState :: "Parser \<Rightarrow> LookaheadState" where
  "getCurLookaheadState p =
     \<lparr> pos = pos p, value_tok = value_tok p, type_tok = type_tok p,
       start_tok = start_tok p, end_tok = end_tok p,
       context_stack = context_stack p,
       startLoc = startLoc p, lastTokEndLoc = lastTokEndLoc p, endLoc = endLoc p,
       lastTokEnd = lastTokEnd p, lastTokStart = lastTokStart p,
       lastTokStartLoc = lastTokStartLoc p,
       curLine = curLine p, lineStart = lineStart p, curPosition = curPosition p,
       containsEsc = containsEsc p \<rparr>"

text \<open>
  Lines 590-609. As above, but \<^verbatim>\<open>context: this.context && this.context.slice()\<close>:
  \<^verbatim>\<open>slice()\<close> allocates a new array with the same elements. (\<^verbatim>\<open>this.context\<close> is always
  an array, so the \<^verbatim>\<open>&&\<close> takes its right operand.)
\<close>

definition cloneCurLookaheadState :: "Parser \<Rightarrow> LookaheadState \<times> Parser" where
  "cloneCurLookaheadState p =
     (let r = fresh p;
          p' = p\<lparr> arrays := (arrays p)(r := arrays p (context_stack p)), fresh := Suc r \<rparr>
      in (\<lparr> pos = pos p, value_tok = value_tok p, type_tok = type_tok p,
             start_tok = start_tok p, end_tok = end_tok p,
             context_stack = r,
             startLoc = startLoc p, lastTokEndLoc = lastTokEndLoc p, endLoc = endLoc p,
             lastTokEnd = lastTokEnd p, lastTokStart = lastTokStart p,
             lastTokStartLoc = lastTokStartLoc p,
             curLine = curLine p, lineStart = lineStart p, curPosition = curPosition p,
             containsEsc = containsEsc p \<rparr>, p'))"

text \<open>Lines 611-628: sixteen assignments, in the order of the source.\<close>

definition setLookaheadState :: "LookaheadState \<Rightarrow> Parser \<Rightarrow> Parser" where
  "setLookaheadState state p =
     p\<lparr> pos := pos state,
        value_tok := value_tok state,
        endLoc := endLoc state,
        lastTokEnd := lastTokEnd state,
        lastTokStart := lastTokStart state,
        lastTokStartLoc := lastTokStartLoc state,
        type_tok := type_tok state,
        start_tok := start_tok state,
        end_tok := end_tok state,
        context_stack := context_stack state,
        startLoc := startLoc state,
        lastTokEndLoc := lastTokEndLoc state,
        curLine := curLine state,
        lineStart := lineStart state,
        curPosition := curPosition state,
        containsEsc := containsEsc state \<rparr>"

text \<open>
  What the code does to the live parser between a capture and a restore. A token
  advance assigns the cursor properties and changes the context stack; the code has
  three ways to change an array in place (\<^verbatim>\<open>this.context.push(c)\<close> and
  \<^verbatim>\<open>this.context.length -= 2\<close> in \<^verbatim>\<open>updateContext\<close>, lines 5298-5314, the base
  engine's \<^verbatim>\<open>this.context.pop()\<close> and its
  \<^verbatim>\<open>this.context[this.context.length - 1] = c\<close>) and one to replace it by a new array
  (\<^verbatim>\<open>this.context = [this.curContext()]\<close> in \<^verbatim>\<open>createLookaheadState\<close>, lines 564-567).
  It also assigns to \<^verbatim>\<open>this.context\<close> an array that exists already:
  \<^verbatim>\<open>this.context = state.context\<close> in \<^verbatim>\<open>setLookaheadState\<close>, line 621, and
  \<^verbatim>\<open>this.context = oldContext\<close> in \<^verbatim>\<open>tsInNoContext\<close>, line 518 (\<open>CtxUse r\<close>; a reference
  that the code holds is the reference of an array in the store). Every other write
  goes to a property outside the sixteen, such as \<^verbatim>\<open>exprAllowed\<close>, \<^verbatim>\<open>preValue\<close> or
  \<^verbatim>\<open>isLookahead\<close>: \<open>SetOther g\<close> takes from \<open>g\<close> what it does to those properties.
  An advance of any number of tokens, and a restore, is a finite sequence of these
  steps. \<open>SetCursor c\<close> assigns the fifteen properties other than \<^verbatim>\<open>context\<close> from \<open>c\<close>.
\<close>

datatype mutation =
  SetCursor LookaheadState
  | CtxPush TokContext
  | CtxPop
  | CtxSetTop TokContext
  | CtxFresh "TokContext list"
  | CtxUse ref
  | SetOther "Parser \<Rightarrow> Parser"

fun mutate :: "mutation \<Rightarrow> Parser \<Rightarrow> Parser" where
  "mutate (SetCursor c) p =
     p\<lparr> pos := pos c, value_tok := value_tok c, type_tok := type_tok c,
        start_tok := start_tok c, end_tok := end_tok c,
        startLoc := startLoc c, lastTokEndLoc := lastTokEndLoc c, endLoc := endLoc c,
        lastTokEnd := lastTokEnd c, lastTokStart := lastTokStart c,
        lastTokStartLoc := lastTokStartLoc c,
        curLine := curLine c, lineStart := lineStart c, curPosition := curPosition c,
        containsEsc := containsEsc c \<rparr>"
| "mutate (CtxPush c) p =
     p\<lparr> arrays := (arrays p)(context_stack p := arrays p (context_stack p) @ [c]) \<rparr>"
| "mutate CtxPop p =
     p\<lparr> arrays := (arrays p)(context_stack p := butlast (arrays p (context_stack p))) \<rparr>"
| "mutate (CtxSetTop c) p =
     (if arrays p (context_stack p) = [] then p
      else p\<lparr> arrays := (arrays p)(context_stack p := butlast (arrays p (context_stack p)) @ [c]) \<rparr>)"
| "mutate (CtxFresh cs) p =
     p\<lparr> arrays := (arrays p)(fresh p := cs), context_stack := fresh p, fresh := Suc (fresh p) \<rparr>"
| "mutate (CtxUse r) p = (if r < fresh p then p\<lparr> context_stack := r \<rparr> else p)"
| "mutate (SetOther g) p =
     p\<lparr> input := input (g p), isLookahead := isLookahead (g p),
        isAmbientContext := isAmbientContext (g p), inType := inType (g p),
        exprAllowed := exprAllowed (g p), preValue := preValue (g p), preToken := preToken (g p),
        options_ranges := options_ranges (g p),
        raiseRecoverable_throws := raiseRecoverable_throws (g p), reported := reported (g p),
        scopeStack := scopeStack (g p), importsStack := importsStack (g p),
        inModule := inModule (g p), undefinedExports := undefinedExports (g p) \<rparr>"

fun advance :: "mutation list \<Rightarrow> Parser \<Rightarrow> Parser" where
  "advance [] p = p"
| "advance (m # ms) p = advance ms (mutate m p)"

text \<open>
  A step changes the live context array in place when it is a push, a pop or an
  overwrite of the top. \<open>leaves_array r ms p\<close>: run from \<open>p\<close>, no step of \<open>ms\<close> changes the
  array \<open>r\<close> in place, that is, none of these three is taken while \<open>r\<close> is the live
  array. \<open>assigns_array r m\<close>: the step \<open>m\<close> makes the existing array \<open>r\<close> the live one.
\<close>

fun in_place :: "mutation \<Rightarrow> bool" where
  "in_place (CtxPush c) = True"
| "in_place CtxPop = True"
| "in_place (CtxSetTop c) = True"
| "in_place m = False"

fun leaves_array :: "ref \<Rightarrow> mutation list \<Rightarrow> Parser \<Rightarrow> bool" where
  "leaves_array r [] p = True"
| "leaves_array r (m # ms) p =
     ((in_place m \<longrightarrow> context_stack p \<noteq> r) \<and> leaves_array r ms (mutate m p))"

fun assigns_array :: "ref \<Rightarrow> mutation \<Rightarrow> bool" where
  "assigns_array r (CtxUse r') = (r' = r)"
| "assigns_array r m = False"

text \<open>
  What a reader of the parser observes of the sixteen properties: their values, with
  the elements of the context stack in place of the reference to it. The same for a
  snapshot, read in the store of a parser.
\<close>

definition observe_state :: "Parser \<Rightarrow> LookaheadState \<Rightarrow> LookaheadState \<times> TokContext list" where
  "observe_state p s = (s\<lparr> context_stack := 0 \<rparr>, arrays p (context_stack s))"

definition observe :: "Parser \<Rightarrow> LookaheadState \<times> TokContext list" where
  "observe p = observe_state p (getCurLookaheadState p)"

text \<open>References in use are below \<open>fresh\<close>.\<close>

definition store_ok :: "Parser \<Rightarrow> bool" where
  "store_ok p = (context_stack p < fresh p)"

section \<open>The speculative combinator tryParse\<close>

text \<open>
  Lines 321-370. \<^verbatim>\<open>fn\<close> receives the \<^verbatim>\<open>abort\<close> callback and either returns a value,
  or throws the abort signal of this call (\<^verbatim>\<open>abort(node)\<close> stores \<^verbatim>\<open>node\<close>, \<^verbatim>\<open>null\<close>
  by default, in the signal and throws it), or throws something else; in each case it
  leaves the parser in some state. The result is the \<^verbatim>\<open>TryParse\<close> object, or the
  rethrown value, with the state of the parser at that moment.
\<close>

datatype raised = AbortSignal "node option" | Error thrown

datatype fn_outcome = Returned "node option" | Raised raised

record TryParse =
  res_node :: "node option"
  res_error :: "thrown option"
  res_thrown :: bool
  res_aborted :: bool
  res_failState :: "LookaheadState option"

datatype tryParse_outcome = Result TryParse | Rethrown thrown

definition tryParse ::
  "(Parser \<Rightarrow> fn_outcome \<times> Parser) \<Rightarrow> LookaheadState \<Rightarrow> Parser \<Rightarrow> tryParse_outcome \<times> Parser" where
  "tryParse fn oldState p =
     (case fn p of
        (Returned n, p1) \<Rightarrow>
          (Result \<lparr> res_node = n, res_error = None, res_thrown = False,
                    res_aborted = False, res_failState = None \<rparr>, p1)
      | (Raised err, p1) \<Rightarrow>
          (let failState = getCurLookaheadState p1;
               p2 = setLookaheadState oldState p1
           in case err of
                Error (SyntaxError at m) \<Rightarrow>
                  (Result \<lparr> res_node = None, res_error = Some (SyntaxError at m),
                            res_thrown = True, res_aborted = False,
                            res_failState = Some failState \<rparr>, p2)
              | AbortSignal n \<Rightarrow>
                  (Result \<lparr> res_node = n, res_error = None, res_thrown = False,
                            res_aborted = True, res_failState = Some failState \<rparr>, p2)
              | Error e \<Rightarrow> (Rethrown e, p2)))"

text \<open>
  The default argument \<^verbatim>\<open>oldState = this.cloneCurLookaheadState()\<close> is evaluated when
  the call starts, before \<^verbatim>\<open>fn\<close> runs.
\<close>

definition tryParse_default ::
  "(Parser \<Rightarrow> fn_outcome \<times> Parser) \<Rightarrow> Parser \<Rightarrow> tryParse_outcome \<times> Parser" where
  "tryParse_default fn p =
     (case cloneCurLookaheadState p of (oldState, p0) \<Rightarrow> tryParse fn oldState p0)"

section \<open>Finishing a node and resetting its span\<close>

text \<open>
  \<^verbatim>\<open>finishNode(node, type)\<close>, lines 313-319: a node whose \<^verbatim>\<open>type\<close> is not the empty
  string and whose \<^verbatim>\<open>end\<close> is not 0 is returned as it is; any other node goes to the
  base engine's \<^verbatim>\<open>finishNode\<close>, the parameter \<open>base_finishNode\<close>.
\<close>

definition finishNode :: "(node \<Rightarrow> string \<Rightarrow> node) \<Rightarrow> node \<Rightarrow> string \<Rightarrow> node" where
  "finishNode base_finishNode n ty =
     (if node_type n \<noteq> [] \<and> node_end n \<noteq> 0 then n else base_finishNode n ty)"

text \<open>
  \<^verbatim>\<open>resetEndLocation(node, endLoc)\<close>, lines 398-405, and
  \<^verbatim>\<open>resetStartLocation(node, start, startLoc)\<close>, lines 725-729. The first argument is
  \<^verbatim>\<open>this.options.ranges\<close>. Writing through a missing \<^verbatim>\<open>node.loc\<close> or \<^verbatim>\<open>node.range\<close>
  is a TypeError of the runtime.
\<close>

definition resetEndLocation :: "bool \<Rightarrow> node \<Rightarrow> Position \<Rightarrow> thrown + node" where
  "resetEndLocation ranges n endLoc' =
     (let n1 = set_node_end (index endLoc') n in
      case node_loc n1 of
        None \<Rightarrow> Inl TypeError
      | Some l \<Rightarrow>
          (let n2 = set_node_loc (Some (l\<lparr>loc_end := Some endLoc'\<rparr>)) n1 in
           if ranges then
             (case node_range n2 of
                None \<Rightarrow> Inl TypeError
              | Some (a, b) \<Rightarrow> Inr (set_node_range (Some (a, index endLoc')) n2))
           else Inr n2))"

definition resetStartLocation :: "bool \<Rightarrow> node \<Rightarrow> nat \<Rightarrow> Position \<Rightarrow> thrown + node" where
  "resetStartLocation ranges n start startLoc' =
     (let n1 = set_node_start start n in
      case node_loc n1 of
        None \<Rightarrow> Inl TypeError
      | Some l \<Rightarrow>
          (let n2 = set_node_loc (Some (l\<lparr>loc_start := startLoc'\<rparr>)) n1 in
           if ranges then
             (case node_range n2 of
                None \<Rightarrow> Inl TypeError
              | Some (a, b) \<Rightarrow> Inr (set_node_range (Some (start, b)) n2))
           else Inr n2))"

section \<open>The base engine\<close>

text \<open>
  The members of the base class that the embedded methods call: \<^verbatim>\<open>this.next()\<close>, the
  regular expression \<^verbatim>\<open>lineBreak\<close> (its \<^verbatim>\<open>test\<close>), \<^verbatim>\<open>isIdentifierStart\<close>, the token
  classifiers of \<^verbatim>\<open>./tokenType\<close>, \<^verbatim>\<open>isContextual\<close>, \<^verbatim>\<open>startNodeAt\<close>, and
  \<^verbatim>\<open>super.finishNode\<close>, \<^verbatim>\<open>super.readToken\<close> (which is handed the
  \<^verbatim>\<open>getTokenFromCode\<close> of this class, the method it dispatches to),
  \<^verbatim>\<open>super.declareName\<close>, \<^verbatim>\<open>treatFunctionsAsVarInScope\<close>, \<^verbatim>\<open>super.parseVar\<close> (it fills
  \<^verbatim>\<open>node.declarations\<close>), \<^verbatim>\<open>semicolon\<close>, and the member \<^verbatim>\<open>delete\<close> of the object that the
  base engine keeps in \<^verbatim>\<open>this.undefinedExports\<close>.
\<close>

datatype lexer_call =
  Call_jsx_readToken
  | Call_jsx_readWord
  | Call_jsx_readString nat
  | IncPos_finishToken TokenType
  | Call_finishOp TokenType nat
  | Call_readWord
  | Call_super_getTokenFromCode nat

record Engine =
  next_tok :: "Parser \<Rightarrow> thrown + Parser"
  lineBreak_test :: "nat list \<Rightarrow> bool"
  isIdentifierStart :: "nat \<Rightarrow> bool"
  tokenIsIdentifier :: "TokenType \<Rightarrow> bool"
  tokenIsLiteralPropertyName :: "TokenType \<Rightarrow> bool"
  isContextual :: "string \<Rightarrow> Parser \<Rightarrow> bool"
  startNodeAt :: "nat \<Rightarrow> Position \<Rightarrow> Parser \<Rightarrow> node"
  super_finishNode :: "Parser \<Rightarrow> node \<Rightarrow> string \<Rightarrow> node"
  super_readToken :: "(nat \<Rightarrow> lexer_call) \<Rightarrow> nat \<Rightarrow> lexer_call"
  super_declareName :: "string \<Rightarrow> 32 word \<Rightarrow> nat \<Rightarrow> Parser \<Rightarrow> thrown + Parser"
  treatFunctionsAsVarInScope :: "Scope \<Rightarrow> bool"
  parseVar :: "node \<Rightarrow> bool \<Rightarrow> string \<Rightarrow> bool \<Rightarrow> Parser \<Rightarrow> thrown + node \<times> Parser"
  semicolon :: "Parser \<Rightarrow> thrown + Parser"
  undefinedExports_delete :: "string \<Rightarrow> Parser \<Rightarrow> thrown + Parser"

text \<open>
  The two diagnostic channels of the base engine. \<^verbatim>\<open>super.raise\<close> throws a
  SyntaxError. \<^verbatim>\<open>super.raiseRecoverable\<close> is the hook for diagnostics after which
  parsing continues: in the acorn library it is \<^verbatim>\<open>raise\<close> unless the host replaces it
  (\<open>raiseRecoverable_throws\<close>); otherwise it records the diagnostic (\<open>reported\<close>) and
  returns.
\<close>

definition super_raise :: "nat \<Rightarrow> message \<Rightarrow> Parser \<Rightarrow> thrown + Parser" where
  "super_raise at m p = Inl (SyntaxError at m)"

definition super_raiseRecoverable :: "nat \<Rightarrow> message \<Rightarrow> Parser \<Rightarrow> thrown + Parser" where
  "super_raiseRecoverable at m p =
     (if raiseRecoverable_throws p then Inl (SyntaxError at m)
      else Inr (p\<lparr> reported := reported p @ [(at, m)] \<rparr>))"

section \<open>Small accessors\<close>

text \<open>
  \<^verbatim>\<open>match(type)\<close>, lines 871-873. \<^verbatim>\<open>curContext()\<close> is the base engine's
  \<^verbatim>\<open>this.context[this.context.length - 1]\<close>, \<^verbatim>\<open>undefined\<close> on an empty stack.
  \<^verbatim>\<open>charCodeAt\<close> is NaN (\<open>None\<close>) outside the string; \<^verbatim>\<open>slice(a, b)\<close> is empty when
  \<^verbatim>\<open>b\<close> is not above \<^verbatim>\<open>a\<close>.
\<close>

definition match_tok :: "Parser \<Rightarrow> TokenType \<Rightarrow> bool" where
  "match_tok p ty = (type_tok p = ty)"

definition curContext :: "Parser \<Rightarrow> TokContext option" where
  "curContext p =
     (case arrays p (context_stack p) of [] \<Rightarrow> None | cs \<Rightarrow> Some (last cs))"

definition charCodeAt :: "nat list \<Rightarrow> nat \<Rightarrow> nat option" where
  "charCodeAt s i = (if i < length s then Some (s ! i) else None)"

definition slice :: "nat list \<Rightarrow> nat \<Rightarrow> nat \<Rightarrow> nat list" where
  "slice s a b = take (b - a) (drop a s)"

section \<open>Whitespace lookahead\<close>

text \<open>
  \<^verbatim>\<open>const skipWhiteSpace = /(?:\s|\/\/.*|\/\*[^]*?\*\/)*/g\<close>, line 35. The pattern
  matches at \<^verbatim>\<open>lastIndex\<close> (it can match the empty string) and repeats, as long as one
  of them matches: one whitespace character; \<^verbatim>\<open>//\<close> and the rest of the line; \<^verbatim>\<open>/*\<close>
  up to the first \<^verbatim>\<open>*/\<close>. \<open>skipWhiteSpace_len\<close> is the length of the match at the start
  of a string.
\<close>

definition is_js_whitespace :: "nat \<Rightarrow> bool" where
  "is_js_whitespace c =
     (c = 9 \<or> c = 10 \<or> c = 11 \<or> c = 12 \<or> c = 13 \<or> c = 32 \<or> c = 160 \<or> c = 5760 \<or>
      (8192 \<le> c \<and> c \<le> 8202) \<or> c = 8232 \<or> c = 8233 \<or> c = 8239 \<or> c = 8287 \<or>
      c = 12288 \<or> c = 65279)"

definition is_line_terminator :: "nat \<Rightarrow> bool" where
  "is_line_terminator c = (c = 10 \<or> c = 13 \<or> c = 8232 \<or> c = 8233)"

text \<open>The offset of the first \<^verbatim>\<open>*/\<close> in a string, if there is one.\<close>

fun find_comment_close :: "nat list \<Rightarrow> nat option" where
  "find_comment_close [] = None"
| "find_comment_close [c] = None"
| "find_comment_close (c # d # cs) =
     (if c = 42 \<and> d = 47 then Some 0
      else map_option Suc (find_comment_close (d # cs)))"

function skipWhiteSpace_len :: "nat list \<Rightarrow> nat" where
  "skipWhiteSpace_len [] = 0"
| "skipWhiteSpace_len (c # cs) =
     (if is_js_whitespace c then 1 + skipWhiteSpace_len cs
      else if c = 47 \<and> cs \<noteq> [] \<and> hd cs = 47 then
        (let line_rest = takeWhile (\<lambda>x. \<not> is_line_terminator x) (tl cs) in
         2 + length line_rest + skipWhiteSpace_len (drop (length line_rest) (tl cs)))
      else if c = 47 \<and> cs \<noteq> [] \<and> hd cs = 42 then
        (case find_comment_close (tl cs) of
           None \<Rightarrow> 0
         | Some k \<Rightarrow> 2 + k + 2 + skipWhiteSpace_len (drop (k + 2) (tl cs)))
      else 0)"
  by pat_completeness auto
termination
  by (relation "measure length") (auto simp: less_Suc_eq_le intro: le_trans[of _ "length x - Suc 0" for x])

text \<open>
  \<^verbatim>\<open>nextTokenStartSince(pos)\<close>, lines 547-550 (\<^verbatim>\<open>test\<close> fails only when \<^verbatim>\<open>lastIndex\<close> is
  beyond the input), \<^verbatim>\<open>nextTokenStart()\<close>, lines 411-413, and \<^verbatim>\<open>lookaheadCharCode()\<close>,
  lines 552-554.
\<close>

definition nextTokenStartSince :: "Parser \<Rightarrow> nat \<Rightarrow> nat" where
  "nextTokenStartSince p from =
     (if from \<le> length (input p) then from + skipWhiteSpace_len (drop from (input p))
      else from)"

definition nextTokenStart :: "Parser \<Rightarrow> nat" where
  "nextTokenStart p = nextTokenStartSince p (pos p)"

definition lookaheadCharCode :: "Parser \<Rightarrow> nat option" where
  "lookaheadCharCode p = charCodeAt (input p) (nextTokenStart p)"

section \<open>Diagnostics: raiseCommonCheck, raise, raiseRecoverable\<close>

text \<open>Lines 5271-5296. Both \<^verbatim>\<open>raise\<close> and \<^verbatim>\<open>raiseRecoverable\<close> pass \<^verbatim>\<open>true\<close>.\<close>

definition raiseCommonCheck :: "Engine \<Rightarrow> nat \<Rightarrow> message \<Rightarrow> bool \<Rightarrow> Parser \<Rightarrow> thrown + Parser" where
  "raiseCommonCheck eng at m recoverable p =
     (if m = Msg ''Comma is not permitted after the rest element'' then
        (if isAmbientContext p \<and> match_tok p tt_comma \<and> lookaheadCharCode p = Some 41
         then next_tok eng p
         else super_raise at m p)
      else if recoverable then super_raiseRecoverable at m p
      else super_raise at m p)"

definition raiseRecoverable :: "Engine \<Rightarrow> nat \<Rightarrow> message \<Rightarrow> Parser \<Rightarrow> thrown + Parser" where
  "raiseRecoverable eng at m p = raiseCommonCheck eng at m True p"

definition raise :: "Engine \<Rightarrow> nat \<Rightarrow> message \<Rightarrow> Parser \<Rightarrow> thrown + Parser" where
  "raise eng at m p = raiseCommonCheck eng at m True p"

section \<open>The tokenizer overrides\<close>

text \<open>
  The three methods return the call that reads the token: \<^verbatim>\<open>finishOp(type, size)\<close>,
  \<^verbatim>\<open>++this.pos\<close> followed by \<^verbatim>\<open>finishToken(type)\<close>, one of the JSX readers, or the base
  engine's \<^verbatim>\<open>getTokenFromCode\<close>. Lines 258-267, 294-305 and 269-292.
\<close>

definition getTokenFromCodeInType :: "nat \<Rightarrow> lexer_call" where
  "getTokenFromCodeInType code =
     (if code = 62 then Call_finishOp tt_relational 1
      else if code = 60 then Call_finishOp tt_relational 1
      else Call_super_getTokenFromCode code)"

definition getTokenFromCode :: "Parser \<Rightarrow> nat \<Rightarrow> lexer_call" where
  "getTokenFromCode p code =
     (if inType p then getTokenFromCodeInType code
      else if code = 64 then IncPos_finishToken tok_at
      else Call_super_getTokenFromCode code)"

definition readToken :: "Engine \<Rightarrow> Parser \<Rightarrow> nat \<Rightarrow> lexer_call" where
  "readToken eng p code =
     (case
        (if \<not> inType p then
           (let context = curContext p in
            if context = Some tc_expr then Some Call_jsx_readToken
            else
              (case
                 (if context = Some tc_oTag \<or> context = Some tc_cTag then
                    (if isIdentifierStart eng code then Some Call_jsx_readWord
                     else if code = 62 then Some (IncPos_finishToken tok_jsxTagEnd)
                     else if (code = 34 \<or> code = 39) \<and> context = Some tc_oTag
                     then Some (Call_jsx_readString code)
                     else None)
                  else None)
               of
                 Some r \<Rightarrow> Some r
               | None \<Rightarrow>
                   (if code = 60 \<and> exprAllowed p \<and> charCodeAt (input p) (pos p + 1) \<noteq> Some 33
                    then Some (IncPos_finishToken tok_jsxTagStart)
                    else None)))
         else None)
      of
        Some r \<Rightarrow> r
      | None \<Rightarrow> super_readToken eng (getTokenFromCode p) code)"

text \<open>
  \<^verbatim>\<open>curPosition()\<close>, lines 4477-4492: the position that the base engine's
  \<^verbatim>\<open>curPosition()\<close> gives, with the property \<^verbatim>\<open>index\<close> set to \<^verbatim>\<open>this.pos\<close>
  (\<^verbatim>\<open>options.locations\<close> is on: \<^verbatim>\<open>parse\<close>, lines 5117-5121, sets it).
  \<^verbatim>\<open>updateContext(prevType)\<close>, lines 5298-5314; \<^verbatim>\<open>this.context.length -= 2\<close> throws a
  RangeError on an array of fewer than two elements. \<^verbatim>\<open>finishToken(type, val)\<close>, lines
  715-727. \<open>base_curPosition\<close> and \<open>base_updateContext\<close> are the methods of the base
  engine that they call through \<^verbatim>\<open>super\<close>.
\<close>

definition call_curPosition :: "(Parser \<Rightarrow> Position) \<Rightarrow> Parser \<Rightarrow> Position" where
  "call_curPosition base_curPosition p = (base_curPosition p)\<lparr> index := pos p \<rparr>"

definition updateContext ::
  "(TokenType \<Rightarrow> Parser \<Rightarrow> thrown + Parser) \<Rightarrow> TokenType \<Rightarrow> Parser \<Rightarrow> thrown + Parser" where
  "updateContext base_updateContext prevType p =
     (if type_tok p = tt_braceL then
        (case (if curContext p = Some tc_oTag then Inr (mutate (CtxPush b_expr) p)
               else if curContext p = Some tc_expr then Inr (mutate (CtxPush b_tmpl) p)
               else base_updateContext prevType p) of
           Inl e \<Rightarrow> Inl e
         | Inr p1 \<Rightarrow> Inr (p1\<lparr> exprAllowed := True \<rparr>))
      else if type_tok p = tt_slash \<and> prevType = tok_jsxTagStart then
        (if length (arrays p (context_stack p)) < 2 then Inl (OtherError ''RangeError'')
         else Inr ((mutate (CtxPush tc_cTag) (mutate CtxPop (mutate CtxPop p)))
                     \<lparr> exprAllowed := False \<rparr>))
      else base_updateContext prevType p)"

definition finishToken ::
  "(Parser \<Rightarrow> Position) \<Rightarrow> (TokenType \<Rightarrow> Parser \<Rightarrow> thrown + Parser) \<Rightarrow> TokenType \<Rightarrow> js_value
     \<Rightarrow> Parser \<Rightarrow> thrown + Parser" where
  "finishToken base_curPosition base_updateContext ty val p =
     (let prevType = type_tok p;
          p1 = p\<lparr> preValue := value_tok p, preToken := Some (type_tok p), end_tok := pos p,
                  endLoc := call_curPosition base_curPosition p, type_tok := ty,
                  value_tok := val \<rparr>
      in if \<not> isLookahead p1 then updateContext base_updateContext prevType p1 else Inr p1)"

section \<open>Postfix non-null assertion in parseSubscript\<close>

text \<open>\<^verbatim>\<open>hasPrecedingLineBreak()\<close>, lines 768-772.\<close>

definition hasPrecedingLineBreak :: "Engine \<Rightarrow> Parser \<Rightarrow> bool" where
  "hasPrecedingLineBreak eng p =
     lineBreak_test eng (slice (input p) (index (lastTokEndLoc p)) (start_tok p))"

text \<open>
  \<^verbatim>\<open>parseSubscript\<close>, lines 4700-4722: the branch this class puts in front of the
  rest of the method. \<open>rest\<close> is that rest (from line 4724 on), with the other
  arguments of the call.
\<close>

definition parseSubscript ::
  "Engine \<Rightarrow> (node \<Rightarrow> Parser \<Rightarrow> thrown + node \<times> Parser) \<Rightarrow> node \<Rightarrow> nat \<Rightarrow> Position \<Rightarrow> Parser
     \<Rightarrow> thrown + node \<times> Parser" where
  "parseSubscript eng rest base startPos startLoc' p =
     (if \<not> hasPrecedingLineBreak eng p \<and> value_tok p = JStr ''!'' \<and> match_tok p tt_prefix then
        (case next_tok eng (p\<lparr> exprAllowed := False \<rparr>) of
           Inl e \<Rightarrow> Inl e
         | Inr p1 \<Rightarrow>
             (let nonNullExpression =
                    set_node_expression (Some base) (startNodeAt eng startPos startLoc' p1)
              in Inr (finishNode (super_finishNode eng p1) nonNullExpression
                        ''TSNonNullExpression'', p1)))
      else rest base p)"

section \<open>Tuple types\<close>

text \<open>
  \<^verbatim>\<open>Array.prototype.forEach\<close> with a callback that raises diagnostics and assigns
  variables of the enclosing function (\<open>vars\<close>): the elements in order, each call in
  the state the previous one left; a throw in a call ends the loop.
\<close>

fun forEach :: "('s \<Rightarrow> 'a \<Rightarrow> Parser \<Rightarrow> thrown + 's \<times> Parser) \<Rightarrow> 's \<Rightarrow> 'a list \<Rightarrow> Parser
    \<Rightarrow> thrown + 's \<times> Parser" where
  "forEach callback vars [] p = Inr (vars, p)"
| "forEach callback vars (x # xs) p =
     (case callback vars x p of
        Inl e \<Rightarrow> Inl e
      | Inr (vars', p') \<Rightarrow> forEach callback vars' xs p')"

text \<open>
  \<^verbatim>\<open>tsParseTupleType\<close>, lines 1747-1791. The callback of \<^verbatim>\<open>forEach\<close> (lines
  1760-1788) has the variables \<^verbatim>\<open>seenOptionalElement\<close> and \<^verbatim>\<open>labeledElements\<close>
  (\<^verbatim>\<open>null\<close> at first). Reading \<^verbatim>\<open>.type\<close> of a missing \<^verbatim>\<open>typeAnnotation\<close> is a TypeError.
  \<open>tsParseBracketedList\<close> stands for the call that parses the elements (lines
  1749-1754); \<^verbatim>\<open>startNode()\<close> of the base engine is its \<^verbatim>\<open>startNodeAt\<close> at the current
  token.
\<close>

definition tsParseTupleType_callback ::
  "Engine \<Rightarrow> bool \<times> bool option \<Rightarrow> node \<Rightarrow> Parser \<Rightarrow> thrown + (bool \<times> bool option) \<times> Parser" where
  "tsParseTupleType_callback eng vars elementNode p =
     (case vars of (seenOptionalElement, labeledElements) \<Rightarrow>
      (let ty = node_type elementNode in
      case (if seenOptionalElement \<and> ty \<noteq> ''TSRestType'' \<and> ty \<noteq> ''TSOptionalType'' \<and>
               \<not> (ty = ''TSNamedTupleMember'' \<and> node_optional elementNode)
            then raise eng (node_start elementNode) (TSError OptionalTypeBeforeRequired) p
            else Inr p) of
        Inl e \<Rightarrow> Inl e
      | Inr p1 \<Rightarrow>
          (let seenOptionalElement' =
                 (seenOptionalElement \<or>
                  (ty = ''TSNamedTupleMember'' \<and> node_optional elementNode) \<or>
                  ty = ''TSOptionalType'')
           in case (if ty = ''TSRestType'' then node_typeAnnotation elementNode
                    else Some elementNode) of
                None \<Rightarrow> Inl TypeError
              | Some checkNode \<Rightarrow>
                  (let isLabeled = (node_type checkNode = ''TSNamedTupleMember'');
                       labeledElements' =
                         (case labeledElements of None \<Rightarrow> isLabeled | Some l \<Rightarrow> l)
                   in case (if labeledElements' \<noteq> isLabeled
                            then raise eng (node_start checkNode)
                                   (TSError MixedLabeledAndUnlabeledElements) p1
                            else Inr p1) of
                        Inl e \<Rightarrow> Inl e
                      | Inr p2 \<Rightarrow> Inr ((seenOptionalElement', Some labeledElements'), p2)))))"

definition tsParseTupleType ::
  "Engine \<Rightarrow> (Parser \<Rightarrow> thrown + node list \<times> Parser) \<Rightarrow> Parser \<Rightarrow> thrown + node \<times> Parser" where
  "tsParseTupleType eng tsParseBracketedList p =
     (let node = startNodeAt eng (start_tok p) (startLoc p) p in
      case tsParseBracketedList p of
        Inl e \<Rightarrow> Inl e
      | Inr (elementTypes, p1) \<Rightarrow>
          (case forEach (tsParseTupleType_callback eng) (False, None) elementTypes p1 of
             Inl e \<Rightarrow> Inl e
           | Inr (vars, p2) \<Rightarrow>
               Inr (finishNode (super_finishNode eng p2)
                      (set_node_elementTypes elementTypes node) ''TSTupleType'', p2)))"

text \<open>
  The words of the claim about tuple elements: a rest element, an optional element
  (\<^verbatim>\<open>T?\<close> or an optional named member), the node whose label is checked (the
  argument of a rest element, the element itself otherwise) and whether it is
  labeled. A rest element that the parser built has its argument.
\<close>

definition is_rest_element :: "node \<Rightarrow> bool" where
  "is_rest_element e = (node_type e = ''TSRestType'')"

definition is_optional_element :: "node \<Rightarrow> bool" where
  "is_optional_element e =
     ((node_type e = ''TSNamedTupleMember'' \<and> node_optional e) \<or> node_type e = ''TSOptionalType'')"

definition label_node :: "node \<Rightarrow> node" where
  "label_node e = (if node_type e = ''TSRestType'' then the (node_typeAnnotation e) else e)"

definition is_labeled :: "node \<Rightarrow> bool" where
  "is_labeled e = (node_type (label_node e) = ''TSNamedTupleMember'')"

definition rest_has_argument :: "node \<Rightarrow> bool" where
  "rest_has_argument e = (node_type e = ''TSRestType'' \<longrightarrow> node_typeAnnotation e \<noteq> None)"

text \<open>
  The diagnostics that the callback raises for one element and the loop for a list of
  elements, in order; the lemmas below relate them to the loop.
\<close>

definition element_diagnostics :: "bool \<Rightarrow> bool option \<Rightarrow> node \<Rightarrow> (nat \<times> message) list" where
  "element_diagnostics seen lab e =
      (if seen \<and> \<not> is_rest_element e \<and> \<not> is_optional_element e
       then [(node_start e, TSError OptionalTypeBeforeRequired)] else []) @
      (if (case lab of None \<Rightarrow> is_labeled e | Some l \<Rightarrow> l) \<noteq> is_labeled e
       then [(node_start (label_node e), TSError MixedLabeledAndUnlabeledElements)] else [])"

fun tuple_diagnostics :: "bool \<Rightarrow> bool option \<Rightarrow> node list \<Rightarrow> (nat \<times> message) list" where
  "tuple_diagnostics seen lab [] = []"
| "tuple_diagnostics seen lab (e # es) =
     element_diagnostics seen lab e @
     tuple_diagnostics (seen \<or> is_optional_element e)
       (Some (case lab of None \<Rightarrow> is_labeled e | Some l \<Rightarrow> l)) es"

definition required_after_optional :: "node list \<Rightarrow> nat \<Rightarrow> bool" where
  "required_after_optional es i =
     (i < length es \<and> (\<exists>j<i. is_optional_element (es ! j)) \<and>
      \<not> is_rest_element (es ! i) \<and> \<not> is_optional_element (es ! i))"

definition mixes_labels :: "node list \<Rightarrow> bool" where
  "mixes_labels es = (\<exists>i<length es. \<exists>j<length es. is_labeled (es ! i) \<noteq> is_labeled (es ! j))"

section \<open>Variable statements in an ambient context\<close>

text \<open>
  \<^verbatim>\<open>isUncomputedMemberExpressionChain\<close>, lines 104-110, and \<^verbatim>\<open>isPossiblyLiteralEnum\<close>,
  lines 89-102. Reading a property of a missing child is a TypeError.
\<close>

fun isUncomputedMemberExpressionChain :: "node \<Rightarrow> thrown + bool" where
  "isUncomputedMemberExpressionChain (Node ty s e l r opt c ta ex ob pr ini idn exs ds els) =
     (if ty = ''Identifier'' then Inr True
      else if ty \<noteq> ''MemberExpression'' then Inr False
      else if c then Inr False
      else (case ob of
              None \<Rightarrow> Inl TypeError
            | Some obj \<Rightarrow> isUncomputedMemberExpressionChain obj))"

definition isPossiblyLiteralEnum :: "node \<Rightarrow> thrown + bool" where
  "isPossiblyLiteralEnum expression =
     (if node_type expression \<noteq> ''MemberExpression'' then Inr False
      else
        (case (if node_computed expression then
                 (case node_property expression of
                    None \<Rightarrow> Inl TypeError
                  | Some property \<Rightarrow>
                      Inr (node_type property \<noteq> ''TemplateLiteral'' \<or>
                           length (node_expressions property) > 0))
               else Inr False) of
           Inl e \<Rightarrow> Inl e
         | Inr True \<Rightarrow> Inr False
         | Inr False \<Rightarrow>
             (case node_object expression of
                None \<Rightarrow> Inl TypeError
              | Some obj \<Rightarrow> isUncomputedMemberExpressionChain obj)))"

text \<open>
  \<^verbatim>\<open>parseVarStatement\<close>, lines 3508-3549. The body of the \<^verbatim>\<open>for ... of\<close> loop over
  \<^verbatim>\<open>declaration.declarations\<close> (lines 3519-3546) is the callback below; the loop has no
  variables of its own.
\<close>

definition parseVarStatement_body ::
  "Engine \<Rightarrow> string \<Rightarrow> unit \<Rightarrow> node \<Rightarrow> Parser \<Rightarrow> thrown + unit \<times> Parser" where
  "parseVarStatement_body eng kind vars declarator p =
     (case node_init declarator of
        None \<Rightarrow> Inr ((), p)
      | Some init \<Rightarrow>
          (case node_id declarator of
             None \<Rightarrow> Inl TypeError
           | Some ident \<Rightarrow>
               (if kind \<noteq> ''const'' \<or> node_typeAnnotation ident \<noteq> None then
                  map_sum (\<lambda>e. e) (Pair ())
                    (raise eng (node_start init) (TSError InitializerNotAllowedInAmbientContext) p)
                else if node_type init \<noteq> ''StringLiteral'' \<and>
                        node_type init \<noteq> ''BooleanLiteral'' \<and>
                        node_type init \<noteq> ''NumericLiteral'' \<and>
                        node_type init \<noteq> ''BigIntLiteral'' \<and>
                        (node_type init \<noteq> ''TemplateLiteral'' \<or>
                         length (node_expressions init) > 0) then
                  (case isPossiblyLiteralEnum init of
                     Inl e \<Rightarrow> Inl e
                   | Inr True \<Rightarrow> Inr ((), p)
                   | Inr False \<Rightarrow>
                       map_sum (\<lambda>e. e) (Pair ())
                         (raise eng (node_start init)
                            (TSError ConstInitiailizerMustBeStringOrNumericLiteralOrLiteralEnumReference) p))
                else Inr ((), p))))"

definition parseVarStatement ::
  "Engine \<Rightarrow> node \<Rightarrow> string \<Rightarrow> bool \<Rightarrow> Parser \<Rightarrow> thrown + node \<times> Parser" where
  "parseVarStatement eng node kind allowMissingInitializer p =
     (let isAmbientContext' = isAmbientContext p in
      case next_tok eng p of
        Inl e \<Rightarrow> Inl e
      | Inr p1 \<Rightarrow>
          (case parseVar eng node False kind (allowMissingInitializer \<or> isAmbientContext') p1 of
             Inl e \<Rightarrow> Inl e
           | Inr (node', p2) \<Rightarrow>
               (case semicolon eng p2 of
                  Inl e \<Rightarrow> Inl e
                | Inr p3 \<Rightarrow>
                    (let declaration =
                           finishNode (super_finishNode eng p3) node' ''VariableDeclaration''
                     in if \<not> isAmbientContext' then Inr (declaration, p3)
                        else
                          (case forEach (parseVarStatement_body eng kind) ()
                                  (node_declarations declaration) p3 of
                             Inl e \<Rightarrow> Inl e
                           | Inr (vars, p4) \<Rightarrow> Inr (declaration, p4))))))"

section \<open>Scopes and declareName\<close>

text \<open>The constants of \<^verbatim>\<open>acornScope\<close>, lines 55-83, that the methods below use.\<close>

definition SCOPE_TOP :: "32 word" where "SCOPE_TOP = 1"
definition SCOPE_SIMPLE_CATCH :: "32 word" where "SCOPE_SIMPLE_CATCH = 32"
definition BIND_LEXICAL :: "32 word" where "BIND_LEXICAL = 2"
definition BIND_FUNCTION :: "32 word" where "BIND_FUNCTION = 3"
definition BIND_TS_TYPE :: "32 word" where "BIND_TS_TYPE = 6"
definition BIND_TS_INTERFACE :: "32 word" where "BIND_TS_INTERFACE = 7"
definition BIND_TS_NAMESPACE :: "32 word" where "BIND_TS_NAMESPACE = 8"
definition BIND_FLAGS_TS_EXPORT_ONLY :: "32 word" where "BIND_FLAGS_TS_EXPORT_ONLY = 1024"
definition BIND_FLAGS_TS_IMPORT :: "32 word" where "BIND_FLAGS_TS_IMPORT = 4096"
definition BIND_KIND_VALUE :: "32 word" where "BIND_KIND_VALUE = 0"
definition BIND_KIND_TYPE :: "32 word" where "BIND_KIND_TYPE = 0"
definition BIND_FLAGS_TS_ENUM :: "32 word" where "BIND_FLAGS_TS_ENUM = 256"
definition BIND_FLAGS_TS_CONST_ENUM :: "32 word" where "BIND_FLAGS_TS_CONST_ENUM = 512"
definition BIND_FLAGS_CLASS :: "32 word" where "BIND_FLAGS_CLASS = 128"

text \<open>
  \<^verbatim>\<open>currentScope()\<close> of the base engine is the last element of \<^verbatim>\<open>scopeStack\<close>; the scope
  is an object, and the assignments to its arrays are updates of that element.
  \<^verbatim>\<open>hasImport\<close>, lines 5367-5378; \<^verbatim>\<open>maybeExportDefined\<close>, lines 5380-5384, which calls
  \<^verbatim>\<open>this.undefinedExports.delete(name)\<close>, a method of an object of the base engine.
\<close>

definition currentScope :: "Parser \<Rightarrow> Scope option" where
  "currentScope p = (if scopeStack p = [] then None else Some (last (scopeStack p)))"

definition update_currentScope :: "(Scope \<Rightarrow> Scope) \<Rightarrow> Parser \<Rightarrow> Parser" where
  "update_currentScope f p =
     (if scopeStack p = [] then p
      else p\<lparr> scopeStack := butlast (scopeStack p) @ [f (last (scopeStack p))] \<rparr>)"

definition hasImport :: "Parser \<Rightarrow> string \<Rightarrow> bool \<Rightarrow> thrown + bool" where
  "hasImport p name allowShadow =
     (if importsStack p = [] then Inl TypeError
      else if name \<in> set (last (importsStack p)) then Inr True
      else if \<not> allowShadow \<and> length (importsStack p) > 1 then
        Inr (list_ex (\<lambda>frame. name \<in> set frame) (butlast (importsStack p)))
      else Inr False)"

definition maybeExportDefined :: "Engine \<Rightarrow> Scope \<Rightarrow> string \<Rightarrow> Parser \<Rightarrow> thrown + Parser" where
  "maybeExportDefined eng scope name p =
     (if inModule p \<and> (scope_flags scope AND SCOPE_TOP) \<noteq> 0
      then undefinedExports_delete eng name p
      else Inr p)"

text \<open>\<^verbatim>\<open>isRedeclaredInScope\<close>, lines 5386-5418.\<close>

definition isRedeclaredInScope :: "Engine \<Rightarrow> Scope \<Rightarrow> string \<Rightarrow> 32 word \<Rightarrow> bool" where
  "isRedeclaredInScope eng scope name bindingType =
     (if \<not> ((bindingType AND BIND_KIND_VALUE) \<noteq> 0) then False
      else if (bindingType AND BIND_LEXICAL) \<noteq> 0 then
        (name \<in> set (scope_lexical scope) \<or> name \<in> set (scope_functions scope) \<or>
         name \<in> set (scope_var scope))
      else if (bindingType AND BIND_FUNCTION) \<noteq> 0 then
        (name \<in> set (scope_lexical scope) \<or>
         (\<not> treatFunctionsAsVarInScope eng scope \<and> name \<in> set (scope_var scope)))
      else
        ((name \<in> set (scope_lexical scope) \<and>
          \<not> ((scope_flags scope AND SCOPE_SIMPLE_CATCH) \<noteq> 0 \<and>
             (scope_lexical scope \<noteq> [] \<and> hd (scope_lexical scope) = name))) \<or>
         (\<not> treatFunctionsAsVarInScope eng scope \<and> name \<in> set (scope_functions scope))))"

text \<open>
  \<^verbatim>\<open>checkRedeclarationInScope\<close>, lines 5420-5429: the message is
  \<^verbatim>\<open>Identifier 'name' has already been declared.\<close>
\<close>

definition already_declared :: "string \<Rightarrow> message" where
  "already_declared name = Msg (''Identifier '' @ [CHR 0x27] @ name @ [CHR 0x27] @ '' has already been declared.'')"

definition checkRedeclarationInScope ::
  "Engine \<Rightarrow> Scope \<Rightarrow> string \<Rightarrow> 32 word \<Rightarrow> nat \<Rightarrow> Parser \<Rightarrow> thrown + Parser" where
  "checkRedeclarationInScope eng scope name bindingType loc p =
     (if isRedeclaredInScope eng scope name bindingType
      then raise eng loc (already_declared name) p
      else Inr p)"

text \<open>
  \<^verbatim>\<open>declareName\<close>, lines 5431-5460. \<^verbatim>\<open>scope\<close> is the object that \<^verbatim>\<open>currentScope()\<close>
  returned before \<^verbatim>\<open>super.declareName\<close> ran; the base method changes the arrays of
  scope objects and leaves the stack of scopes as it is, so this object is the current
  scope afterwards as well.
\<close>

definition declareName :: "Engine \<Rightarrow> string \<Rightarrow> 32 word \<Rightarrow> nat \<Rightarrow> Parser \<Rightarrow> thrown + Parser" where
  "declareName eng name bindingType at p =
     (if (bindingType AND BIND_FLAGS_TS_IMPORT) \<noteq> 0 then
        (case hasImport p name True of
           Inl e \<Rightarrow> Inl e
         | Inr dup \<Rightarrow>
             (case (if dup then raise eng at (already_declared name) p else Inr p) of
                Inl e \<Rightarrow> Inl e
              | Inr p1 \<Rightarrow>
                  Inr (p1\<lparr> importsStack :=
                             butlast (importsStack p1) @ [last (importsStack p1) @ [name]] \<rparr>)))
      else
        (case currentScope p of
           None \<Rightarrow>
             (if (bindingType AND BIND_FLAGS_TS_EXPORT_ONLY) \<noteq> 0 then Inl TypeError
              else
                (case super_declareName eng name bindingType at p of
                   Inl e \<Rightarrow> Inl e
                 | Inr p1 \<Rightarrow>
                     (if (bindingType AND BIND_KIND_TYPE) \<noteq> 0 \<or>
                         (bindingType AND BIND_FLAGS_TS_ENUM) \<noteq> 0 \<or>
                         (bindingType AND BIND_FLAGS_TS_CONST_ENUM) \<noteq> 0 \<or>
                         (bindingType AND BIND_FLAGS_CLASS) \<noteq> 0
                      then Inl TypeError else Inr p1)))
         | Some scope \<Rightarrow>
             (if (bindingType AND BIND_FLAGS_TS_EXPORT_ONLY) \<noteq> 0 then
                (case maybeExportDefined eng scope name p of
                   Inl e \<Rightarrow> Inl e
                 | Inr p1 \<Rightarrow>
                     Inr (update_currentScope
                            (\<lambda>sc. sc\<lparr> scope_exportOnlyBindings :=
                                         scope_exportOnlyBindings sc @ [name] \<rparr>) p1))
              else
                (case super_declareName eng name bindingType at p of
                   Inl e \<Rightarrow> Inl e
                 | Inr p1 \<Rightarrow>
                     (case (if (bindingType AND BIND_KIND_TYPE) \<noteq> 0 then
                              (case (if \<not> ((bindingType AND BIND_KIND_VALUE) \<noteq> 0) then
                                       (case checkRedeclarationInScope eng (last (scopeStack p1))
                                               name bindingType at p1 of
                                          Inl e \<Rightarrow> Inl e
                                        | Inr p2 \<Rightarrow>
                                            maybeExportDefined eng (last (scopeStack p2)) name p2)
                                     else Inr p1) of
                                 Inl e \<Rightarrow> Inl e
                               | Inr p3 \<Rightarrow>
                                   Inr (update_currentScope
                                          (\<lambda>sc. sc\<lparr> scope_types := scope_types sc @ [name] \<rparr>) p3))
                            else Inr p1) of
                        Inl e \<Rightarrow> Inl e
                      | Inr p4 \<Rightarrow>
                          (let p5 = (if (bindingType AND BIND_FLAGS_TS_ENUM) \<noteq> 0
                                     then update_currentScope
                                            (\<lambda>sc. sc\<lparr> scope_enums := scope_enums sc @ [name] \<rparr>) p4
                                     else p4);
                               p6 = (if (bindingType AND BIND_FLAGS_TS_CONST_ENUM) \<noteq> 0
                                     then update_currentScope
                                            (\<lambda>sc. sc\<lparr> scope_constEnums := scope_constEnums sc @ [name] \<rparr>) p5
                                     else p5);
                               p7 = (if (bindingType AND BIND_FLAGS_CLASS) \<noteq> 0
                                     then update_currentScope
                                            (\<lambda>sc. sc\<lparr> scope_classes := scope_classes sc @ [name] \<rparr>) p6
                                     else p6)
                           in Inr p7))))))"

section \<open>Modifier lists\<close>





























section \<open>Concrete inputs of the closed instances\<close>

definition position0 :: Position where
  "position0 = \<lparr> line = 1, column = 0, index = 0 \<rparr>"

definition scope0 :: Scope where
  "scope0 = \<lparr> scope_flags = 1, scope_var = [], scope_lexical = [], scope_functions = [],
              scope_types = [], scope_enums = [], scope_constEnums = [], scope_classes = [],
              scope_exportOnlyBindings = [] \<rparr>"

text \<open>A parser at the start of an empty input, with the context stack \<^verbatim>\<open>[b_stat]\<close>.\<close>

definition parser0 :: Parser where
  "parser0 =
     \<lparr> pos = 0, value_tok = JNull, type_tok = tt_eof, start_tok = 0, end_tok = 0,
       context_stack = 0,
       startLoc = position0, lastTokEndLoc = position0, endLoc = position0,
       lastTokEnd = 0, lastTokStart = 0, lastTokStartLoc = position0,
       curLine = 1, lineStart = 0, curPosition = Method ''curPosition'',
       containsEsc = False,
       input = [], arrays = (\<lambda>r. [])(0 := [b_stat]), fresh = 1,
       isLookahead = False, isAmbientContext = False, inType = False,
       exprAllowed = True, preValue = JUndefined, preToken = None, options_ranges = False,
       raiseRecoverable_throws = False, reported = [],
       scopeStack = [scope0], importsStack = [[]], inModule = True,
       undefinedExports = [] \<rparr>"

text \<open>
  A node as the base engine's \<^verbatim>\<open>startNodeAt\<close> creates it (type \<^verbatim>\<open>""\<close>, end 0), and
  what its \<^verbatim>\<open>finishNode\<close> does with a node when the last token ended at \<open>e\<close>: the
  builders of the acorn library, used as the base engine of the closed instances.
\<close>

fun set_node_type :: "string \<Rightarrow> node \<Rightarrow> node" where
  "set_node_type v (Node ty s e l r opt c ta ex ob pr ini idn exs ds els) =
     Node v s e l r opt c ta ex ob pr ini idn exs ds els"

definition new_node :: "nat \<Rightarrow> Position \<Rightarrow> node" where
  "new_node start loc =
     Node [] start 0 (Some \<lparr> loc_start = loc, loc_end = None \<rparr>) None
       False False None None None None None None [] [] []"

definition acorn_finishNode :: "nat \<Rightarrow> Position \<Rightarrow> node \<Rightarrow> string \<Rightarrow> node" where
  "acorn_finishNode e eloc n ty =
     (let n1 = set_node_end e (set_node_type ty n) in
      case node_loc n1 of
        None \<Rightarrow> n1
      | Some l \<Rightarrow> set_node_loc (Some (l\<lparr> loc_end := Some eloc \<rparr>)) n1)"

definition position_at :: "nat \<Rightarrow> Position" where
  "position_at i = \<lparr> line = 1, column = i, index = i \<rparr>"

text \<open>The finished identifier \<^verbatim>\<open>ab\<close> at offsets 0 to 2.\<close>

definition ident_ab :: node where
  "ident_ab = acorn_finishNode 2 (position_at 2) (new_node 0 position0) ''Identifier''"

text \<open>
  The tokenizer state of the acorn library (version 8, \<^verbatim>\<open>ecmaVersion\<close> 6 or later), the
  base engine of the closed instances. Its \<^verbatim>\<open>curPosition()\<close> is the line and the column
  of \<^verbatim>\<open>this.pos\<close> (its positions have no \<^verbatim>\<open>index\<close>: \<open>call_curPosition\<close> sets it). A token
  context has the attributes \<^verbatim>\<open>isExpr\<close>, \<^verbatim>\<open>generator\<close> and the token \<^verbatim>\<open>function\<close>; a token
  type has the attribute \<^verbatim>\<open>beforeExpr\<close>, and the token types that this package adds for
  TypeScript words have none. \<open>acorn_updateContext\<close> is \<^verbatim>\<open>updateContext(prevType)\<close> of
  the library with the \<^verbatim>\<open>updateContext\<close> members of the token types (those of
  \<^verbatim>\<open>jsxTagStart\<close> and \<^verbatim>\<open>jsxTagEnd\<close> are set by this package in \<^verbatim>\<open>./tokenType\<close>);
  \<^verbatim>\<open>this.curContext().token\<close> and \<^verbatim>\<open>out.isExpr\<close> throw a TypeError on an empty stack.
\<close>

definition acorn_curPosition :: "Parser \<Rightarrow> Position" where
  "acorn_curPosition p = \<lparr> line = curLine p, column = pos p - lineStart p, index = 0 \<rparr>"

fun ctx_isExpr :: "TokContext \<Rightarrow> bool" where
  "ctx_isExpr b_expr = True"
| "ctx_isExpr p_expr = True"
| "ctx_isExpr q_tmpl = True"
| "ctx_isExpr f_expr = True"
| "ctx_isExpr f_expr_gen = True"
| "ctx_isExpr tc_expr = True"
| "ctx_isExpr c = False"

fun ctx_is_function :: "TokContext \<Rightarrow> bool" where
  "ctx_is_function f_stat = True"
| "ctx_is_function f_expr = True"
| "ctx_is_function f_expr_gen = True"
| "ctx_is_function f_gen = True"
| "ctx_is_function c = False"

fun ctx_generator :: "TokContext \<Rightarrow> bool" where
  "ctx_generator f_expr_gen = True"
| "ctx_generator f_gen = True"
| "ctx_generator c = False"

fun is_keyword :: "TokenType \<Rightarrow> bool" where
  "is_keyword (tt_keyword w) = True"
| "is_keyword t = False"

fun beforeExpr :: "TokenType \<Rightarrow> bool" where
  "beforeExpr tt_bracketL = True"
| "beforeExpr tt_braceL = True"
| "beforeExpr tt_parenL = True"
| "beforeExpr tt_comma = True"
| "beforeExpr tt_semi = True"
| "beforeExpr tt_colon = True"
| "beforeExpr tt_question = True"
| "beforeExpr tt_ellipsis = True"
| "beforeExpr tt_eq = True"
| "beforeExpr tt_prefix = True"
| "beforeExpr tt_plusMin = True"
| "beforeExpr tt_relational = True"
| "beforeExpr tt_bitShift = True"
| "beforeExpr tt_star = True"
| "beforeExpr tt_slash = True"
| "beforeExpr tok_jsxText = True"
| "beforeExpr (tt_keyword w) =
     (w \<in> set [''case'', ''default'', ''do'', ''else'', ''return'', ''throw'', ''new'',
                ''extends'', ''in'', ''instanceof'', ''typeof'', ''void'', ''delete''])"
| "beforeExpr t = False"

definition braceIsBlock :: "TokenType \<Rightarrow> Parser \<Rightarrow> bool" where
  "braceIsBlock prevType p =
     (let parent = curContext p in
      if parent = Some f_expr \<or> parent = Some f_stat then True
      else if prevType = tt_colon \<and> (parent = Some b_stat \<or> parent = Some b_expr)
      then parent = Some b_stat
      else if prevType = tt_keyword ''return'' \<or> (prevType = tt_name \<and> exprAllowed p)
      then list_ex is_line_terminator (slice (input p) (lastTokEnd p) (start_tok p))
      else if prevType = tt_keyword ''else'' \<or> prevType = tt_semi \<or> prevType = tt_eof \<or>
              prevType = tt_parenR
      then True
      else if prevType = tt_braceL then parent = Some b_stat
      else if prevType = tt_keyword ''var'' \<or> prevType = tt_keyword ''const'' \<or>
              prevType = tt_name
      then False
      else \<not> exprAllowed p)"

definition inGeneratorContext :: "Parser \<Rightarrow> bool" where
  "inGeneratorContext p =
     (case find ctx_is_function (rev (tl (arrays p (context_stack p)))) of
        None \<Rightarrow> False
      | Some c \<Rightarrow> ctx_generator c)"

definition acorn_updateContext :: "TokenType \<Rightarrow> Parser \<Rightarrow> thrown + Parser" where
  "acorn_updateContext prevType p =
     (let ty = type_tok p; cs = arrays p (context_stack p) in
      if is_keyword ty \<and> prevType = tt_dot then Inr (p\<lparr> exprAllowed := False \<rparr>)
      else if ty = tt_parenR \<or> ty = tt_braceR then
        (if length cs = 1 then Inr (p\<lparr> exprAllowed := True \<rparr>)
         else if cs = [] then Inl TypeError
         else
           (let out = last cs; p1 = mutate CtxPop p in
            if out = b_stat then
              (case curContext p1 of
                 None \<Rightarrow> Inl TypeError
               | Some c \<Rightarrow>
                   (if ctx_is_function c
                    then Inr ((mutate CtxPop p1)\<lparr> exprAllowed := \<not> ctx_isExpr c \<rparr>)
                    else Inr (p1\<lparr> exprAllowed := True \<rparr>)))
            else Inr (p1\<lparr> exprAllowed := \<not> ctx_isExpr out \<rparr>)))
      else if ty = tt_braceL then
        Inr ((mutate (CtxPush (if braceIsBlock prevType p then b_stat else b_expr)) p)
               \<lparr> exprAllowed := True \<rparr>)
      else if ty = tt_parenL then
        Inr ((mutate (CtxPush (if prevType = tt_keyword ''if'' \<or> prevType = tt_keyword ''for'' \<or>
                                  prevType = tt_keyword ''with'' \<or> prevType = tt_keyword ''while''
                               then p_stat else p_expr)) p)
               \<lparr> exprAllowed := True \<rparr>)
      else if ty = tt_keyword ''function'' \<or> ty = tt_keyword ''class'' then
        Inr ((mutate (CtxPush
                (if beforeExpr prevType \<and> prevType \<noteq> tt_keyword ''else'' \<and>
                    \<not> (prevType = tt_semi \<and> curContext p \<noteq> Some p_stat) \<and>
                    \<not> (prevType = tt_keyword ''return'' \<and>
                       list_ex is_line_terminator (slice (input p) (lastTokEnd p) (start_tok p))) \<and>
                    \<not> ((prevType = tt_colon \<or> prevType = tt_braceL) \<and> curContext p = Some b_stat)
                 then f_expr else f_stat)) p)
               \<lparr> exprAllowed := False \<rparr>)
      else if ty = tt_colon then
        (case curContext p of
           None \<Rightarrow> Inl TypeError
         | Some c \<Rightarrow>
             Inr ((if ctx_is_function c then mutate CtxPop p else p)\<lparr> exprAllowed := True \<rparr>))
      else if ty = tt_backQuote then
        Inr ((if curContext p = Some q_tmpl then mutate CtxPop p else mutate (CtxPush q_tmpl) p)
               \<lparr> exprAllowed := False \<rparr>)
      else if ty = tt_star then
        Inr ((if prevType = tt_keyword ''function''
              then mutate (CtxSetTop (if curContext p = Some f_expr then f_expr_gen else f_gen)) p
              else p)
               \<lparr> exprAllowed := True \<rparr>)
      else if ty = tt_name then
        Inr (p\<lparr> exprAllowed :=
                   (prevType \<noteq> tt_dot \<and>
                    ((value_tok p = JStr ''of'' \<and> \<not> exprAllowed p) \<or>
                     (value_tok p = JStr ''yield'' \<and> inGeneratorContext p))) \<rparr>)
      else if ty = tok_jsxTagStart then
        Inr ((mutate (CtxPush tc_oTag) (mutate (CtxPush tc_expr) p))\<lparr> exprAllowed := False \<rparr>)
      else if ty = tok_jsxTagEnd then
        (let p1 = mutate CtxPop p in
         if cs \<noteq> [] \<and> ((last cs = tc_oTag \<and> prevType = tt_slash) \<or> last cs = tc_cTag)
         then (let p2 = mutate CtxPop p1 in Inr (p2\<lparr> exprAllowed := (curContext p2 = Some tc_expr) \<rparr>))
         else Inr (p1\<lparr> exprAllowed := True \<rparr>))
      else Inr (p\<lparr> exprAllowed := beforeExpr ty \<rparr>))"

text \<open>
  The tokenizer of the closed instances is a table of the tokens of the input (type,
  value, start, end) in place of the character reader. \<open>table_next\<close> is \<^verbatim>\<open>next()\<close> of the
  acorn library: the test for an escape sequence in a keyword, the four assignments
  of the previous-token properties, and \<^verbatim>\<open>nextToken()\<close>, which skips to the start of the
  next token (the first of the table that starts at or after \<^verbatim>\<open>this.pos\<close>, else the end
  of the input), counts the line breaks on the way as \<^verbatim>\<open>skipSpace\<close> does, sets
  \<^verbatim>\<open>start\<close> and \<^verbatim>\<open>startLoc\<close>, moves \<^verbatim>\<open>this.pos\<close> to the end of the token and calls
  \<open>finishToken\<close> (\<open>read_token\<close>, for the token found). The reader of a word clears
  \<^verbatim>\<open>containsEsc\<close>; the tables hold no escape sequence. The tokenizer never moves
  \<^verbatim>\<open>this.pos\<close> backwards.
\<close>

type_synonym token = "TokenType \<times> js_value \<times> nat \<times> nat"

fun count_lines :: "nat list \<Rightarrow> nat \<Rightarrow> nat \<times> nat \<Rightarrow> nat \<times> nat" where
  "count_lines [] i st = st"
| "count_lines (c # cs) i (l, ls) =
     count_lines cs (Suc i)
       (if c = 13 \<and> (case cs of [] \<Rightarrow> False | d # ds \<Rightarrow> d = 10) then (l, ls)
        else if is_line_terminator c then (Suc l, Suc i)
        else (l, ls))"

definition skipSpace_to :: "nat \<Rightarrow> Parser \<Rightarrow> Parser" where
  "skipSpace_to s p =
     (if s \<le> pos p then p
      else
        (case count_lines (slice (input p) (pos p) s) (pos p) (curLine p, lineStart p) of
           (l, ls) \<Rightarrow> p\<lparr> pos := s, curLine := l, lineStart := ls \<rparr>))"

fun is_word :: "TokenType \<Rightarrow> bool" where
  "is_word tt_name = True"
| "is_word (tt_keyword w) = True"
| "is_word (tok_word w) = True"
| "is_word t = False"

definition read_token :: "token \<Rightarrow> Parser \<Rightarrow> thrown + Parser" where
  "read_token t p =
     (case t of (ty, v, s, e) \<Rightarrow>
        (let p2 = skipSpace_to s p;
             p3 = p2\<lparr> start_tok := pos p2,
                      startLoc := call_curPosition acorn_curPosition p2 \<rparr>;
             p4 = p3\<lparr> pos := max (pos p3) e,
                      containsEsc := (if is_word ty then False else containsEsc p3) \<rparr>
         in finishToken acorn_curPosition acorn_updateContext ty v p4))"

definition table_next :: "token list \<Rightarrow> Parser \<Rightarrow> thrown + Parser" where
  "table_next toks p =
     (case (case type_tok p of
              tt_keyword w \<Rightarrow>
                (if containsEsc p
                 then super_raiseRecoverable (start_tok p)
                        (Msg (''Escape sequence in keyword '' @ w)) p
                 else Inr p)
            | other \<Rightarrow> Inr p) of
        Inl e \<Rightarrow> Inl e
      | Inr p0 \<Rightarrow>
          (let p1 = p0\<lparr> lastTokEnd := end_tok p0, lastTokStart := start_tok p0,
                       lastTokEndLoc := endLoc p0, lastTokStartLoc := startLoc p0 \<rparr>
           in case find (\<lambda>(ty, v, s, e). pos p1 \<le> s) toks of
                None \<Rightarrow>
                  read_token (tt_eof, JUndefined, length (input p1), length (input p1)) p1
              | Some t \<Rightarrow> read_token t p1))"

text \<open>
  The rest of the base engine of the closed instances: its \<^verbatim>\<open>readToken\<close> reads a word
  at an identifier start or a backslash and hands every other character to
  \<^verbatim>\<open>getTokenFromCode\<close>; its nodes are those of \<open>new_node\<close> and \<open>acorn_finishNode\<close>; its
  \<^verbatim>\<open>declareName\<close> treats a binding as the acorn library treats one that is neither
  lexical nor a function nor a catch parameter at the top scope: the name goes to the
  \<^verbatim>\<open>var\<close> array of the scope; its \<^verbatim>\<open>undefinedExports\<close> is an object without prototype and
  without a member \<^verbatim>\<open>delete\<close>, so that calling it throws a TypeError.
\<close>

definition ascii_identifier_start :: "nat \<Rightarrow> bool" where
  "ascii_identifier_start c =
     ((65 \<le> c \<and> c \<le> 90) \<or> (97 \<le> c \<and> c \<le> 122) \<or> c = 36 \<or> c = 95)"

fun word_token :: "TokenType \<Rightarrow> bool" where
  "word_token tt_name = True"
| "word_token (tok_word w) = True"
| "word_token t = False"

fun property_name_token :: "TokenType \<Rightarrow> bool" where
  "property_name_token tt_name = True"
| "property_name_token (tok_word w) = True"
| "property_name_token (tt_keyword w) = True"
| "property_name_token tt_string = True"
| "property_name_token tt_num = True"
| "property_name_token t = False"

definition table_engine :: "token list \<Rightarrow> Engine" where
  "table_engine toks =
     \<lparr> next_tok = table_next toks,
       lineBreak_test = (\<lambda>s. list_ex is_line_terminator s),
       isIdentifierStart = ascii_identifier_start,
       tokenIsIdentifier = word_token,
       tokenIsLiteralPropertyName = property_name_token,
       isContextual = (\<lambda>w p. type_tok p = tt_name \<and> value_tok p = JStr w \<and> \<not> containsEsc p),
       startNodeAt = (\<lambda>start loc p. new_node start loc),
       super_finishNode = (\<lambda>p. acorn_finishNode (lastTokEnd p) (lastTokEndLoc p)),
       super_readToken =
         (\<lambda>getTokenFromCode' code.
            if ascii_identifier_start code \<or> code = 92 then Call_readWord
            else getTokenFromCode' code),
       super_declareName =
         (\<lambda>name bindingType at p.
            Inr (update_currentScope (\<lambda>sc. sc\<lparr> scope_var := scope_var sc @ [name] \<rparr>) p)),
       treatFunctionsAsVarInScope = (\<lambda>scope. False),
       parseVar = (\<lambda>node isFor kind allowMissingInitializer p. Inr (node, p)),
       semicolon = (\<lambda>p. Inr p),
       undefinedExports_delete = (\<lambda>name p. Inl TypeError) \<rparr>"

text \<open>
  The parser on \<^verbatim>\<open>ab! ;\<close>, at the token \<^verbatim>\<open>!\<close> after the identifier \<^verbatim>\<open>ab\<close>, and on
  the same tokens with a line feed in front of the \<^verbatim>\<open>!\<close>.
\<close>

definition tokens_bang :: "token list" where
  "tokens_bang = [(tt_name, JStr ''ab'', 0, 2), (tt_prefix, JStr ''!'', 2, 3), (tt_semi, JUndefined, 4, 5)]"

definition parser_bang :: Parser where
  "parser_bang =
     parser0\<lparr> input := [97, 98, 33, 32, 59], pos := 3,
               type_tok := tt_prefix, value_tok := JStr ''!'', start_tok := 2, end_tok := 3,
               startLoc := position_at 2, endLoc := position_at 3,
               lastTokStart := 0, lastTokEnd := 2,
               lastTokStartLoc := position0, lastTokEndLoc := position_at 2 \<rparr>"

definition tokens_newline_bang :: "token list" where
  "tokens_newline_bang =
     [(tt_name, JStr ''ab'', 0, 2), (tt_prefix, JStr ''!'', 3, 4), (tt_semi, JUndefined, 5, 6)]"

definition parser_newline_bang :: Parser where
  "parser_newline_bang =
     parser0\<lparr> input := [97, 98, 10, 33, 32, 59], pos := 4,
               type_tok := tt_prefix, value_tok := JStr ''!'', start_tok := 3, end_tok := 4,
               startLoc := \<lparr> line = 2, column = 0, index = 3 \<rparr>,
               endLoc := \<lparr> line = 2, column = 1, index = 4 \<rparr>,
               lastTokStart := 0, lastTokEnd := 2,
               lastTokStartLoc := position0, lastTokEndLoc := position_at 2 \<rparr>"

text \<open>
  The parser in an ambient context on \<^verbatim>\<open>...a, )\<close> at the comma (the input from
  offset 0 is \<^verbatim>\<open>a, )\<close>), and the same with \<^verbatim>\<open>b\<close> after the comma.
\<close>

definition tokens_comma :: "token list" where
  "tokens_comma = [(tt_name, JStr ''a'', 0, 1), (tt_comma, JUndefined, 1, 2), (tt_parenR, JUndefined, 3, 4)]"

definition parser_comma :: Parser where
  "parser_comma =
     parser0\<lparr> input := [97, 44, 32, 41], pos := 2,
               type_tok := tt_comma, value_tok := JUndefined, start_tok := 1, end_tok := 2,
               startLoc := position_at 1, endLoc := position_at 2,
               lastTokStart := 0, lastTokEnd := 1,
               lastTokStartLoc := position0, lastTokEndLoc := position_at 1,
               isAmbientContext := True \<rparr>"

definition parser_comma_b :: Parser where
  "parser_comma_b = parser_comma\<lparr> input := [97, 44, 32, 98, 41] \<rparr>"

text \<open>The parser inside a type, at a \<^verbatim>\<open><\<close> where an expression could start.\<close>

definition parser_in_type :: Parser where
  "parser_in_type = parser0\<lparr> input := [60, 84, 62], inType := True, exprAllowed := True \<rparr>"

text \<open>
  Finished nodes without children, and the element lists of the tuple types
  \<^verbatim>\<open>[string, number?]\<close>, \<^verbatim>\<open>[number?, string]\<close> and \<^verbatim>\<open>[a: string, number]\<close>.
\<close>

definition leaf_node :: "string \<Rightarrow> nat \<Rightarrow> nat \<Rightarrow> node" where
  "leaf_node ty s e = acorn_finishNode e (position_at e) (new_node s (position_at s)) ty"

definition tuple_string_optnumber :: "node list" where
  "tuple_string_optnumber =
     [leaf_node ''TSStringKeyword'' 1 7,
      set_node_typeAnnotation (Some (leaf_node ''TSNumberKeyword'' 9 15))
        (leaf_node ''TSOptionalType'' 9 16)]"

definition tuple_optnumber_string :: "node list" where
  "tuple_optnumber_string =
     [set_node_typeAnnotation (Some (leaf_node ''TSNumberKeyword'' 1 7))
        (leaf_node ''TSOptionalType'' 1 8),
      leaf_node ''TSStringKeyword'' 10 16]"

definition tuple_named_unnamed :: "node list" where
  "tuple_named_unnamed =
     [leaf_node ''TSNamedTupleMember'' 1 10, leaf_node ''TSNumberKeyword'' 12 18]"

text \<open>
  The statement \<^verbatim>\<open>declare const X = "a"\<close>: the parser in the ambient context at the
  token \<^verbatim>\<open>const\<close>, and a base engine whose \<^verbatim>\<open>parseVar\<close> yields the given declarators.
  The declarator of \<^verbatim>\<open>X = "a"\<close> has the identifier at 14 and, for the string at 18 to
  21, a node of the type \<^verbatim>\<open>Literal\<close>, the type that the base engine gives every literal
  (line 3326 tests a string literal for it). \<open>declarator_X_StringLiteral\<close> is the same
  declarator with the type \<^verbatim>\<open>StringLiteral\<close> on the initializer.
\<close>

definition declarator :: "node \<Rightarrow> node option \<Rightarrow> node" where
  "declarator ident init =
     set_node_init init
       (set_node_id (Some ident)
          (leaf_node ''VariableDeclarator'' (node_start ident)
             (case init of None \<Rightarrow> node_end ident | Some i \<Rightarrow> node_end i)))"

definition declarator_X_Literal :: node where
  "declarator_X_Literal =
     declarator (leaf_node ''Identifier'' 14 15) (Some (leaf_node ''Literal'' 18 21))"

definition declarator_X_StringLiteral :: node where
  "declarator_X_StringLiteral =
     declarator (leaf_node ''Identifier'' 14 15) (Some (leaf_node ''StringLiteral'' 18 21))"

definition declarator_x_number_1 :: node where
  "declarator_x_number_1 =
     declarator
       (set_node_typeAnnotation (Some (leaf_node ''TSTypeAnnotation'' 15 23))
          (leaf_node ''Identifier'' 14 23))
       (Some (leaf_node ''Literal'' 26 27))"

definition engine_declaring :: "node list \<Rightarrow> Engine" where
  "engine_declaring ds =
     (table_engine [])
       \<lparr> parseVar := (\<lambda>node isFor kind allowMissingInitializer p.
                        Inr (set_node_declarations ds node, p)) \<rparr>"

definition parser_declare :: Parser where
  "parser_declare =
     parser0\<lparr> isAmbientContext := True, pos := 13, type_tok := tt_keyword ''const'',
               value_tok := JStr ''const'', start_tok := 8, end_tok := 13 \<rparr>"


















text \<open>A function that moves the cursor and then throws a value that is no SyntaxError.\<close>

definition fn_throws_other :: "Parser \<Rightarrow> fn_outcome \<times> Parser" where
  "fn_throws_other p = (Raised (Error (OtherError ''boom'')), p\<lparr> pos := 7 \<rparr>)"

text \<open>A function that reads up to offset 3 and then throws a SyntaxError.\<close>

definition fn_throws_syntax :: "Parser \<Rightarrow> fn_outcome \<times> Parser" where
  "fn_throws_syntax p =
     (Raised (Error (SyntaxError 3 (Msg ''Unexpected token''))), p\<lparr> pos := 3 \<rparr>)"

section \<open>Theorems\<close>

subsection \<open>Snapshots\<close>

lemma setLookaheadState_getCur:
  "setLookaheadState (getCurLookaheadState p) p = p"
  by (simp add: setLookaheadState_def getCurLookaheadState_def)

lemma getCur_setLookaheadState:
  "getCurLookaheadState (setLookaheadState s q) = s"
  by (simp add: setLookaheadState_def getCurLookaheadState_def)

lemma observe_setLookaheadState:
  "observe (setLookaheadState s q) = observe_state q s"
  by (simp add: observe_def observe_state_def setLookaheadState_def getCurLookaheadState_def)

text \<open>
  A step that is not an in-place change of the array \<open>r\<close> leaves that array alone, and
  allocates above the references in use.
\<close>

lemma mutate_frame:
  assumes "r < fresh q" and "in_place m \<longrightarrow> context_stack q \<noteq> r"
  shows "arrays (mutate m q) r = arrays q r \<and> r < fresh (mutate m q)"
  using assms by (cases m) auto

lemma advance_frame:
  "leaves_array r ms q \<Longrightarrow> r < fresh q \<Longrightarrow> arrays (advance ms q) r = arrays q r"
proof (induction ms arbitrary: q)
  case Nil
  then show ?case by simp
next
  case (Cons m ms)
  from Cons.prems have a: "in_place m \<longrightarrow> context_stack q \<noteq> r"
    and b: "leaves_array r ms (mutate m q)"
    by simp_all
  from mutate_frame[OF Cons.prems(2) a]
  have c: "arrays (mutate m q) r = arrays q r" and d: "r < fresh (mutate m q)"
    by simp_all
  from Cons.IH[OF b d] c show ?case
    by simp
qed

text \<open>
  An array that is not the live one stays out of reach until a step assigns it to
  \<^verbatim>\<open>this.context\<close>.
\<close>

lemma mutate_not_live:
  assumes "context_stack q \<noteq> r" and "r < fresh q" and "\<not> assigns_array r m"
  shows "context_stack (mutate m q) \<noteq> r \<and> r < fresh (mutate m q)"
  using assms by (cases m) auto

lemma not_assigned_leaves_array:
  "\<not> list_ex (assigns_array r) ms \<Longrightarrow> context_stack q \<noteq> r \<Longrightarrow> r < fresh q \<Longrightarrow>
   leaves_array r ms q"
proof (induction ms arbitrary: q)
  case Nil
  then show ?case by simp
next
  case (Cons m ms)
  from Cons.prems have a: "\<not> assigns_array r m" and b: "\<not> list_ex (assigns_array r) ms"
    by simp_all
  from mutate_not_live[OF Cons.prems(2,3) a] Cons.IH[OF b]
  have "leaves_array r ms (mutate m q)"
    by blast
  with Cons.prems(2) show ?case
    by simp
qed

lemma restore_after_advance:
  assumes "context_stack s < fresh q" and "leaves_array (context_stack s) ms q"
  shows "observe (setLookaheadState s (advance ms q)) = observe_state q s"
    and "observe_state (advance ms q) s = observe_state q s"
proof -
  from advance_frame[OF assms(2,1)]
  show "observe_state (advance ms q) s = observe_state q s"
    by (simp add: observe_state_def)
  then show "observe (setLookaheadState s (advance ms q)) = observe_state q s"
    by (simp add: observe_setLookaheadState)
qed

lemma clone_facts:
  assumes "store_ok p"
  shows "observe_state (snd (cloneCurLookaheadState p)) (fst (cloneCurLookaheadState p)) = observe p"
    and "context_stack (fst (cloneCurLookaheadState p)) < fresh (snd (cloneCurLookaheadState p))"
    and "context_stack (snd (cloneCurLookaheadState p)) \<noteq> context_stack (fst (cloneCurLookaheadState p))"
  using assms
  by (simp_all add: cloneCurLookaheadState_def Let_def observe_state_def observe_def
      getCurLookaheadState_def store_ok_def)

lemma getCur_facts:
  "observe_state p (getCurLookaheadState p) = observe p"
  "context_stack (getCurLookaheadState p) = context_stack p"
  by (simp_all add: observe_def getCurLookaheadState_def)

text \<open>
  C1, as the code has it. Restoring a snapshot right after taking it with
  \<^verbatim>\<open>getCurLookaheadState\<close> leaves the parser as it was. A snapshot holds the sixteen
  properties; \<^verbatim>\<open>cloneCurLookaheadState\<close> gives it a copy of the context stack,
  \<^verbatim>\<open>getCurLookaheadState\<close> the reference to the live array. After any sequence of steps
  of the live parser (none, for an immediate restore) that does not change the array
  of the snapshot in place, the snapshot still reads as the state at the capture, and
  restoring it reproduces the token, the offsets, the line and column and the
  elements of the context stack of that state. For a snapshot of
  \<^verbatim>\<open>cloneCurLookaheadState\<close> these are all the sequences in which no step assigns the
  array of the snapshot to \<^verbatim>\<open>this.context\<close> (a restore of this snapshot is such a step);
  for a snapshot of \<^verbatim>\<open>getCurLookaheadState\<close>, the sequences that make no in-place change
  while the array of the capture is the live one. \<^verbatim>\<open>setLookaheadState\<close> makes the array of
  the snapshot the live array.
\<close>

theorem snapshot_restore_roundtrip:
  assumes "store_ok p"
  shows "setLookaheadState (getCurLookaheadState p) p = p \<and>
         (\<forall>ms. \<not> list_ex (assigns_array (context_stack (fst (cloneCurLookaheadState p)))) ms \<longrightarrow>
               observe (setLookaheadState (fst (cloneCurLookaheadState p))
                          (advance ms (snd (cloneCurLookaheadState p)))) = observe p \<and>
               observe_state (advance ms (snd (cloneCurLookaheadState p)))
                          (fst (cloneCurLookaheadState p)) = observe p) \<and>
         (\<forall>ms. leaves_array (context_stack (fst (cloneCurLookaheadState p))) ms
                  (snd (cloneCurLookaheadState p)) \<longrightarrow>
               observe (setLookaheadState (fst (cloneCurLookaheadState p))
                          (advance ms (snd (cloneCurLookaheadState p)))) = observe p \<and>
               observe_state (advance ms (snd (cloneCurLookaheadState p)))
                          (fst (cloneCurLookaheadState p)) = observe p) \<and>
         (\<forall>ms. leaves_array (context_stack p) ms p \<longrightarrow>
               observe (setLookaheadState (getCurLookaheadState p) (advance ms p)) = observe p \<and>
               observe_state (advance ms p) (getCurLookaheadState p) = observe p) \<and>
         (\<forall>s q. context_stack (setLookaheadState s q) = context_stack s)"
proof (intro conjI allI impI)
  let ?s = "fst (cloneCurLookaheadState p)" and ?q = "snd (cloneCurLookaheadState p)"
  note c = clone_facts[OF assms]
  show "setLookaheadState (getCurLookaheadState p) p = p"
    by (rule setLookaheadState_getCur)
  {
    fix ms assume l: "leaves_array (context_stack ?s) ms ?q"
    from restore_after_advance[OF c(2) l] c(1)
    show "observe (setLookaheadState ?s (advance ms ?q)) = observe p"
      and "observe_state (advance ms ?q) ?s = observe p"
      by simp_all
  } note clone = this
  {
    fix ms assume "\<not> list_ex (assigns_array (context_stack ?s)) ms"
    then have l: "leaves_array (context_stack ?s) ms ?q"
      using c(2,3) by (intro not_assigned_leaves_array) simp_all
    from clone[OF l]
    show "observe (setLookaheadState ?s (advance ms ?q)) = observe p"
      and "observe_state (advance ms ?q) ?s = observe p"
      by simp_all
  }
  {
    fix ms assume l: "leaves_array (context_stack p) ms p"
    have "context_stack (getCurLookaheadState p) < fresh p"
      using assms by (simp add: getCur_facts store_ok_def)
    from restore_after_advance[OF this, of ms] l
    show "observe (setLookaheadState (getCurLookaheadState p) (advance ms p)) = observe p"
      and "observe_state (advance ms p) (getCurLookaheadState p) = observe p"
      by (simp_all add: getCur_facts)
  }
  fix s q show "context_stack (setLookaheadState s q) = context_stack s"
    by (simp add: setLookaheadState_def)
qed


theorem snapshot_restore_roundtrip_witness:
  "store_ok parser0 \<and>
   setLookaheadState (getCurLookaheadState parser0) parser0 = parser0 \<and>
   snd (observe parser0) = [b_stat] \<and>
   observe (setLookaheadState (fst (cloneCurLookaheadState parser0))
      (advance [CtxPush b_expr, SetCursor ((getCurLookaheadState parser0)\<lparr> pos := 5 \<rparr>),
                SetOther (\<lambda>p. p\<lparr> exprAllowed := False \<rparr>), CtxPop, CtxPop, CtxFresh [b_tmpl],
                CtxUse 0, CtxSetTop p_expr]
         (snd (cloneCurLookaheadState parser0)))) = observe parser0 \<and>
   observe (setLookaheadState (getCurLookaheadState parser0)
      (advance [CtxFresh [b_stat], SetCursor ((getCurLookaheadState parser0)\<lparr> pos := 5 \<rparr>),
                CtxPush b_expr] parser0)) = observe parser0 \<and>
   context_stack (setLookaheadState (fst (cloneCurLookaheadState parser0))
                    (snd (cloneCurLookaheadState parser0))) =
     context_stack (fst (cloneCurLookaheadState parser0))"
proof -
  let ?ms = "[CtxPush b_expr, SetCursor ((getCurLookaheadState parser0)\<lparr> pos := 5 \<rparr>),
              SetOther (\<lambda>p. p\<lparr> exprAllowed := False \<rparr>), CtxPop, CtxPop, CtxFresh [b_tmpl],
              CtxUse 0, CtxSetTop p_expr]"
  let ?ns = "[CtxFresh [b_stat], SetCursor ((getCurLookaheadState parser0)\<lparr> pos := 5 \<rparr>),
              CtxPush b_expr]"
  have h: "store_ok parser0"
    by (simp add: store_ok_def parser0_def)
  have o: "snd (observe parser0) = [b_stat]"
    by (simp add: observe_def observe_state_def getCurLookaheadState_def parser0_def)
  have r: "context_stack (fst (cloneCurLookaheadState parser0)) = 1"
    by (simp add: cloneCurLookaheadState_def Let_def parser0_def)
  have a: "\<not> list_ex (assigns_array (context_stack (fst (cloneCurLookaheadState parser0)))) ?ms"
    unfolding r by simp
  have b: "leaves_array (context_stack parser0) ?ns parser0"
    by (simp add: parser0_def)
  note t = snapshot_restore_roundtrip[OF h]
  from t have 1: "setLookaheadState (getCurLookaheadState parser0) parser0 = parser0"
    by (rule conjunct1)
  from t a have 2: "observe (setLookaheadState (fst (cloneCurLookaheadState parser0))
      (advance ?ms (snd (cloneCurLookaheadState parser0)))) = observe parser0"
    by blast
  from t b have 3: "observe (setLookaheadState (getCurLookaheadState parser0)
      (advance ?ns parser0)) = observe parser0"
    by blast
  from t have 4: "context_stack (setLookaheadState (fst (cloneCurLookaheadState parser0))
                    (snd (cloneCurLookaheadState parser0))) =
     context_stack (fst (cloneCurLookaheadState parser0))"
    by blast
  from h 1 o 2 3 4 show ?thesis
    by (intro conjI)
qed

text \<open>
  The claim as stated fails in three ways. One \<^verbatim>\<open>this.context.push(b_expr)\<close> after a
  capture with \<^verbatim>\<open>getCurLookaheadState\<close> is seen through the snapshot, and the restore
  brings back the stack \<^verbatim>\<open>[b_stat, b_expr]\<close>, not the captured \<^verbatim>\<open>[b_stat]\<close>. A snapshot of
  \<^verbatim>\<open>cloneCurLookaheadState\<close> that has been restored shares its array with the parser: a
  \<^verbatim>\<open>context.pop()\<close> after the restore (as in lines 4183-4191) empties the stack that the
  snapshot holds. And \<^verbatim>\<open>exprAllowed\<close>, which the tokenizer writes with every token and
  reads at line 286, is not among the captured properties: a restore leaves it as the
  advance set it.
\<close>

theorem getCurLookaheadState_shares_context_stack:
  "snd (observe parser0) = [b_stat] \<and>
   snd (observe_state (advance [CtxPush b_expr] parser0) (getCurLookaheadState parser0)) =
     [b_stat, b_expr] \<and>
   snd (observe (setLookaheadState (getCurLookaheadState parser0)
          (advance [CtxPush b_expr] parser0))) = [b_stat, b_expr] \<and>
   snd (observe_state
          (advance [CtxPop]
             (setLookaheadState (fst (cloneCurLookaheadState parser0))
                (snd (cloneCurLookaheadState parser0))))
          (fst (cloneCurLookaheadState parser0))) = [] \<and>
   exprAllowed parser0 \<and>
   \<not> exprAllowed
       (setLookaheadState (fst (cloneCurLookaheadState parser0))
          (advance [SetOther (\<lambda>p. p\<lparr> exprAllowed := False \<rparr>)]
             (snd (cloneCurLookaheadState parser0))))"
  by (simp add: observe_def observe_state_def setLookaheadState_def getCurLookaheadState_def
      cloneCurLookaheadState_def Let_def parser0_def)

subsection \<open>tryParse\<close>

text \<open>
  C2, as the code has it. \<^verbatim>\<open>tryParse(fn)\<close> takes its snapshot \<open>oldState\<close> with
  \<^verbatim>\<open>cloneCurLookaheadState\<close> and runs \<^verbatim>\<open>fn\<close>, which leaves the parser in state \<open>q\<close>.
  (1) If \<^verbatim>\<open>fn\<close> returns, the result has its value as node, no error, thrown and aborted
  false, and the parser stays in \<open>q\<close>. (2) If \<^verbatim>\<open>fn\<close> aborts, the parser gets the
  snapshot back and the result is aborted, with the node given to \<^verbatim>\<open>abort\<close> and no
  error. (3) If \<^verbatim>\<open>fn\<close> throws a SyntaxError, the parser gets the snapshot back and the
  result is thrown, with the error in it; nothing is rethrown. (4) Any other value is
  rethrown, and the parser has the snapshot back by then: the catch block restores
  before it looks at the value. After a restore the sixteen properties are those of
  the snapshot.
\<close>

theorem tryParse_outcomes:
  assumes "cloneCurLookaheadState p = (oldState, p0)" and "fn p0 = (out, q)"
  shows
    "(\<forall>n. out = Returned n \<longrightarrow>
        tryParse_default fn p =
          (Result \<lparr> res_node = n, res_error = None, res_thrown = False,
                    res_aborted = False, res_failState = None \<rparr>, q)) \<and>
     (\<forall>n. out = Raised (AbortSignal n) \<longrightarrow>
        tryParse_default fn p =
          (Result \<lparr> res_node = n, res_error = None, res_thrown = False,
                    res_aborted = True, res_failState = Some (getCurLookaheadState q) \<rparr>,
           setLookaheadState oldState q)) \<and>
     (\<forall>at m. out = Raised (Error (SyntaxError at m)) \<longrightarrow>
        tryParse_default fn p =
          (Result \<lparr> res_node = None, res_error = Some (SyntaxError at m), res_thrown = True,
                    res_aborted = False, res_failState = Some (getCurLookaheadState q) \<rparr>,
           setLookaheadState oldState q)) \<and>
     (\<forall>e. out = Raised (Error e) \<longrightarrow> (\<forall>at m. e \<noteq> SyntaxError at m) \<longrightarrow>
        tryParse_default fn p = (Rethrown e, setLookaheadState oldState q)) \<and>
     getCurLookaheadState (setLookaheadState oldState q) = oldState"
  using assms
  by (auto simp: tryParse_default_def tryParse_def Let_def getCur_setLookaheadState
      split: thrown.splits)

theorem tryParse_outcomes_witness:
  "tryParse_default fn_throws_syntax parser0 =
     (Result \<lparr> res_node = None, res_error = Some (SyntaxError 3 (Msg ''Unexpected token'')),
               res_thrown = True, res_aborted = False,
               res_failState =
                 Some (getCurLookaheadState (snd (fn_throws_syntax (snd (cloneCurLookaheadState parser0))))) \<rparr>,
      setLookaheadState (fst (cloneCurLookaheadState parser0))
        (snd (fn_throws_syntax (snd (cloneCurLookaheadState parser0))))) \<and>
   pos (snd (fn_throws_syntax (snd (cloneCurLookaheadState parser0)))) = 3 \<and>
   pos (snd (tryParse_default fn_throws_syntax parser0)) = 0"
proof -
  have a: "cloneCurLookaheadState parser0 =
             (fst (cloneCurLookaheadState parser0), snd (cloneCurLookaheadState parser0))"
    by simp
  have b: "fn_throws_syntax (snd (cloneCurLookaheadState parser0)) =
             (Raised (Error (SyntaxError 3 (Msg ''Unexpected token''))),
              snd (fn_throws_syntax (snd (cloneCurLookaheadState parser0))))"
    by (simp add: fn_throws_syntax_def)
  have c: "pos (snd (fn_throws_syntax (snd (cloneCurLookaheadState parser0)))) = 3"
    by (simp add: fn_throws_syntax_def)
  have d: "pos (fst (cloneCurLookaheadState parser0)) = 0"
    by (simp add: cloneCurLookaheadState_def Let_def parser0_def)
  from tryParse_outcomes[where fn = fn_throws_syntax, OF a b]
  have e: "tryParse_default fn_throws_syntax parser0 =
     (Result \<lparr> res_node = None, res_error = Some (SyntaxError 3 (Msg ''Unexpected token'')),
               res_thrown = True, res_aborted = False,
               res_failState =
                 Some (getCurLookaheadState (snd (fn_throws_syntax (snd (cloneCurLookaheadState parser0))))) \<rparr>,
      setLookaheadState (fst (cloneCurLookaheadState parser0))
        (snd (fn_throws_syntax (snd (cloneCurLookaheadState parser0)))))"
    by blast
  have "pos (snd (tryParse_default fn_throws_syntax parser0)) = 0"
    unfolding e using d by (simp add: setLookaheadState_def)
  with c e show ?thesis by simp
qed

text \<open>
  The claim as stated fails in its last part: a function that moves the cursor to
  offset 7 and throws a value that is no SyntaxError has the value rethrown, and the
  cursor is back at offset 0 of the snapshot.
\<close>

theorem tryParse_restores_before_rethrow:
  "fst (tryParse_default fn_throws_other parser0) = Rethrown (OtherError ''boom'') \<and>
   pos (snd (fn_throws_other (snd (cloneCurLookaheadState parser0)))) = 7 \<and>
   pos (snd (tryParse_default fn_throws_other parser0)) = 0"
  by (simp add: tryParse_default_def tryParse_def fn_throws_other_def cloneCurLookaheadState_def
      Let_def setLookaheadState_def getCurLookaheadState_def parser0_def)

subsection \<open>finishNode\<close>

lemma resetEndLocation_fields:
  "resetEndLocation ranges n endLoc' = Inr n' \<Longrightarrow>
     node_type n' = node_type n \<and> node_start n' = node_start n \<and> node_end n' = index endLoc'"
  by (cases n) (auto simp: resetEndLocation_def Let_def split: option.splits if_splits)

lemma resetStartLocation_fields:
  "resetStartLocation ranges n start startLoc' = Inr n' \<Longrightarrow>
     node_type n' = node_type n \<and> node_end n' = node_end n \<and> node_start n' = start"
  by (cases n) (auto simp: resetStartLocation_def Let_def split: option.splits if_splits)

text \<open>
  C9. A node whose type tag is non-empty and whose end is nonzero is returned by
  \<^verbatim>\<open>finishNode\<close> unchanged, whatever the base engine's \<^verbatim>\<open>finishNode\<close> would do and
  whatever type is passed: no property of it (type, start, end, loc) is overwritten,
  and finishing it again changes nothing. The span of such a node is still moved by
  the explicit reset operations: \<^verbatim>\<open>resetEndLocation\<close> sets its end and
  \<^verbatim>\<open>resetStartLocation\<close> its start, and both leave the type tag alone.
\<close>

theorem finishNode_finished_node_unchanged:
  assumes "node_type n \<noteq> []" and "node_end n \<noteq> 0"
  shows "finishNode base_finishNode n ty = n \<and>
         finishNode base_finishNode (finishNode base_finishNode n ty) ty' = n \<and>
         (\<forall>n'. resetEndLocation ranges n endLoc' = Inr n' \<longrightarrow>
            node_type n' = node_type n \<and> node_start n' = node_start n \<and>
            node_end n' = index endLoc') \<and>
         (\<forall>n'. resetStartLocation ranges n start startLoc' = Inr n' \<longrightarrow>
            node_type n' = node_type n \<and> node_end n' = node_end n \<and>
            node_start n' = start)"
  using assms resetEndLocation_fields resetStartLocation_fields
  by (auto simp: finishNode_def)

theorem finishNode_finished_node_unchanged_witness:
  "node_type ident_ab = ''Identifier'' \<and> node_end ident_ab = 2 \<and>
   finishNode (acorn_finishNode 9 (position_at 9)) ident_ab ''TSTypeReference'' = ident_ab \<and>
   acorn_finishNode 9 (position_at 9) ident_ab ''TSTypeReference'' \<noteq> ident_ab \<and>
   (\<exists>n'. resetEndLocation False ident_ab (position_at 9) = Inr n' \<and>
         node_type n' = ''Identifier'' \<and> node_end n' = 9)"
proof -
  have a: "node_type ident_ab \<noteq> []" and b: "node_end ident_ab \<noteq> 0"
    by (simp_all add: ident_ab_def acorn_finishNode_def new_node_def Let_def)
  have c: "node_type ident_ab = ''Identifier''" "node_end ident_ab = 2"
    by (simp_all add: ident_ab_def acorn_finishNode_def new_node_def Let_def)
  have d: "acorn_finishNode 9 (position_at 9) ident_ab ''TSTypeReference'' \<noteq> ident_ab"
    by (simp add: ident_ab_def acorn_finishNode_def new_node_def Let_def)
  obtain n' where e: "resetEndLocation False ident_ab (position_at 9) = Inr n'"
    by (simp add: resetEndLocation_def ident_ab_def acorn_finishNode_def new_node_def Let_def)
  from finishNode_finished_node_unchanged[OF a b, of "acorn_finishNode 9 (position_at 9)"
      "''TSTypeReference''" "''X''" False "position_at 9" 0 position0] e
  have "finishNode (acorn_finishNode 9 (position_at 9)) ident_ab ''TSTypeReference'' = ident_ab"
    and "node_type n' = node_type ident_ab" and "node_end n' = index (position_at 9)"
    by blast+
  with c d e show ?thesis
    by (simp add: position_at_def)
qed

subsection \<open>Lexing in a type\<close>

text \<open>
  C3. While \<^verbatim>\<open>inType\<close> is set, \<^verbatim>\<open>readToken\<close> skips the JSX block and goes to the
  base engine's \<^verbatim>\<open>readToken\<close>, whatever the character, the context stack and
  \<^verbatim>\<open>exprAllowed\<close> are; a base \<^verbatim>\<open>readToken\<close> that hands \<^verbatim>\<open><\<close> (60) and \<^verbatim>\<open>>\<close> (62) to
  \<^verbatim>\<open>getTokenFromCode\<close> makes each of them \<^verbatim>\<open>finishOp(tt.relational, 1)\<close>, a relational
  token of one character, and \<^verbatim>\<open>getTokenFromCode\<close> makes no character a tag start or a
  tag end (nor any other \<^verbatim>\<open>finishToken\<close> of its own).
\<close>

theorem readToken_in_type_relational:
  assumes "inType p"
    and "\<forall>g. super_readToken eng g 60 = g 60 \<and> super_readToken eng g 62 = g 62"
  shows "readToken eng p 60 = Call_finishOp tt_relational 1 \<and>
         readToken eng p 62 = Call_finishOp tt_relational 1 \<and>
         (\<forall>code. readToken eng p code = super_readToken eng (getTokenFromCode p) code) \<and>
         (\<forall>code ty. getTokenFromCode p code \<noteq> IncPos_finishToken ty)"
  using assms
  by (simp add: readToken_def getTokenFromCode_def getTokenFromCodeInType_def)

theorem readToken_in_type_relational_witness:
  "inType parser_in_type \<and>
   readToken (table_engine []) parser_in_type 60 = Call_finishOp tt_relational 1 \<and>
   readToken (table_engine []) parser_in_type 62 = Call_finishOp tt_relational 1 \<and>
   readToken (table_engine []) (parser_in_type\<lparr> inType := False \<rparr>) 60 =
     IncPos_finishToken tok_jsxTagStart"
proof -
  have a: "inType parser_in_type"
    by (simp add: parser_in_type_def)
  have b: "\<forall>g. super_readToken (table_engine []) g 60 = g 60 \<and>
               super_readToken (table_engine []) g 62 = g 62"
    by (simp add: table_engine_def ascii_identifier_start_def)
  have c: "readToken (table_engine []) (parser_in_type\<lparr> inType := False \<rparr>) 60 =
             IncPos_finishToken tok_jsxTagStart"
    by (simp add: readToken_def parser_in_type_def parser0_def curContext_def charCodeAt_def)
  from readToken_in_type_relational[OF a b] a c show ?thesis
    by blast
qed

subsection \<open>Routing of diagnostics\<close>

text \<open>
  C10. \<^verbatim>\<open>raise\<close> and \<^verbatim>\<open>raiseRecoverable\<close> are both \<^verbatim>\<open>raiseCommonCheck\<close> with
  \<^verbatim>\<open>recoverable = true\<close>. For the message \<^verbatim>\<open>Comma is not permitted after the rest element\<close>:
  in an ambient context, at a comma, with \<^verbatim>\<open>)\<close> the next character after whitespace
  and comments (\<^verbatim>\<open>lookaheadCharCode() === 41\<close>), nothing is reported and the call is
  \<^verbatim>\<open>this.next()\<close>, which reads past the comma; with one of the three conditions false
  the message is thrown as a SyntaxError through \<^verbatim>\<open>super.raise\<close>. Every other message
  goes to \<^verbatim>\<open>super.raiseRecoverable\<close>, from \<^verbatim>\<open>raise\<close> as well.
\<close>

theorem raise_routing:
  "raise eng at m p = raiseCommonCheck eng at m True p \<and>
   raiseRecoverable eng at m p = raiseCommonCheck eng at m True p \<and>
   (m = Msg ''Comma is not permitted after the rest element'' \<longrightarrow>
      (isAmbientContext p \<and> match_tok p tt_comma \<and> lookaheadCharCode p = Some 41 \<longrightarrow>
         raise eng at m p = next_tok eng p) \<and>
      (\<not> (isAmbientContext p \<and> match_tok p tt_comma \<and> lookaheadCharCode p = Some 41) \<longrightarrow>
         raise eng at m p = Inl (SyntaxError at m))) \<and>
   (m \<noteq> Msg ''Comma is not permitted after the rest element'' \<longrightarrow>
      raise eng at m p = super_raiseRecoverable at m p \<and>
      raiseRecoverable eng at m p = super_raiseRecoverable at m p)"
  by (simp add: raise_def raiseRecoverable_def raiseCommonCheck_def super_raise_def)

lemma parser_comma_conditions:
  "isAmbientContext parser_comma \<and> match_tok parser_comma tt_comma \<and>
   lookaheadCharCode parser_comma = Some 41"
  by (simp add: parser_comma_def parser0_def match_tok_def lookaheadCharCode_def
      nextTokenStart_def nextTokenStartSince_def charCodeAt_def is_js_whitespace_def)

lemma parser_comma_b_conditions:
  "isAmbientContext parser_comma_b \<and> match_tok parser_comma_b tt_comma \<and>
   lookaheadCharCode parser_comma_b = Some 98"
  by (simp add: parser_comma_b_def parser_comma_def parser0_def match_tok_def
      lookaheadCharCode_def nextTokenStart_def nextTokenStartSince_def charCodeAt_def
      is_js_whitespace_def)

lemmas table_eval =
  table_next_def read_token_def skipSpace_to_def finishToken_def updateContext_def acorn_updateContext_def
  call_curPosition_def acorn_curPosition_def curContext_def slice_def Let_def
  is_line_terminator_def

lemma table_next_parser_comma:
  "\<exists>p1. table_next tokens_comma parser_comma = Inr p1 \<and> type_tok p1 = tt_parenR \<and>
        start_tok p1 = 3 \<and> reported p1 = []"
  by (simp add: table_eval tokens_comma_def parser_comma_def parser0_def)

theorem raise_routing_witness:
  "isAmbientContext parser_comma \<and> match_tok parser_comma tt_comma \<and>
   lookaheadCharCode parser_comma = Some 41 \<and>
   (\<exists>p1. raise (table_engine tokens_comma) 1
            (Msg ''Comma is not permitted after the rest element'') parser_comma = Inr p1 \<and>
         type_tok p1 = tt_parenR \<and> start_tok p1 = 3 \<and> reported p1 = []) \<and>
   lookaheadCharCode parser_comma_b = Some 98 \<and>
   raise (table_engine tokens_comma) 1
     (Msg ''Comma is not permitted after the rest element'') parser_comma_b =
     Inl (SyntaxError 1 (Msg ''Comma is not permitted after the rest element'')) \<and>
   raise (table_engine tokens_comma) 1 (Msg ''Unexpected token'') parser_comma =
     Inr (parser_comma\<lparr> reported := [(1, Msg ''Unexpected token'')] \<rparr>)"
proof -
  let ?eng = "table_engine tokens_comma"
  let ?m = "Msg ''Comma is not permitted after the rest element''"
  have n: "next_tok ?eng = table_next tokens_comma"
    by (simp add: table_engine_def)
  have a: "raise ?eng 1 ?m parser_comma = next_tok ?eng parser_comma"
    using raise_routing[of ?eng 1 ?m parser_comma] parser_comma_conditions by blast
  have "lookaheadCharCode parser_comma_b \<noteq> Some 41"
    using parser_comma_b_conditions by simp
  then have b: "raise ?eng 1 ?m parser_comma_b = Inl (SyntaxError 1 ?m)"
    using raise_routing[of ?eng 1 ?m parser_comma_b] by blast
  have "Msg ''Unexpected token'' \<noteq> ?m"
    by simp
  then have "raise ?eng 1 (Msg ''Unexpected token'') parser_comma =
          super_raiseRecoverable 1 (Msg ''Unexpected token'') parser_comma"
    using raise_routing[of ?eng 1 "Msg ''Unexpected token''" parser_comma] by blast
  then have c: "raise ?eng 1 (Msg ''Unexpected token'') parser_comma =
          Inr (parser_comma\<lparr> reported := [(1, Msg ''Unexpected token'')] \<rparr>)"
    by (simp add: super_raiseRecoverable_def parser_comma_def parser0_def)
  show ?thesis
    using a b c n table_next_parser_comma parser_comma_conditions parser_comma_b_conditions
    by simp
qed

subsection \<open>Postfix non-null assertion\<close>

lemma set_node_expression_sel:
  "node_type (set_node_expression v n) = node_type n"
  "node_start (set_node_expression v n) = node_start n"
  "node_end (set_node_expression v n) = node_end n"
  "node_expression (set_node_expression v n) = v"
  by (cases n; simp)+

text \<open>
  C8. For a base engine whose \<^verbatim>\<open>startNodeAt\<close> gives an unfinished node (type \<^verbatim>\<open>""\<close>) that
  starts where it is told and whose \<^verbatim>\<open>finishNode\<close> sets the type and keeps start and
  children: when the current token is \<^verbatim>\<open>!\<close> of type \<^verbatim>\<open>tt.prefix\<close> and no line break lies
  between the end of the previous token and its start, \<^verbatim>\<open>parseSubscript\<close> clears
  \<^verbatim>\<open>exprAllowed\<close>, reads past the \<^verbatim>\<open>!\<close> with \<^verbatim>\<open>this.next()\<close> (an error of the tokenizer
  there is passed on) and returns a node of type \<^verbatim>\<open>TSNonNullExpression\<close> whose
  \<^verbatim>\<open>expression\<close> is the base expression and whose start is \<^verbatim>\<open>startPos\<close>. With a line
  break in front of the \<^verbatim>\<open>!\<close>, or at any other token, the method goes on with the rest
  of its body and the state untouched.
\<close>

theorem parseSubscript_non_null:
  assumes "\<forall>a l q. node_type (startNodeAt eng a l q) = [] \<and> node_start (startNodeAt eng a l q) = a"
    and "\<forall>q n ty. node_type (super_finishNode eng q n ty) = ty \<and>
           node_start (super_finishNode eng q n ty) = node_start n \<and>
           node_expression (super_finishNode eng q n ty) = node_expression n"
  shows "(\<not> hasPrecedingLineBreak eng p \<and> value_tok p = JStr ''!'' \<and> type_tok p = tt_prefix \<longrightarrow>
           (\<forall>e. next_tok eng (p\<lparr> exprAllowed := False \<rparr>) = Inl e \<longrightarrow>
                parseSubscript eng rest base startPos startLoc' p = Inl e) \<and>
           (\<forall>p1. next_tok eng (p\<lparr> exprAllowed := False \<rparr>) = Inr p1 \<longrightarrow>
                (\<exists>n. parseSubscript eng rest base startPos startLoc' p = Inr (n, p1) \<and>
                     node_type n = ''TSNonNullExpression'' \<and> node_expression n = Some base \<and>
                     node_start n = startPos))) \<and>
         (hasPrecedingLineBreak eng p \<or> value_tok p \<noteq> JStr ''!'' \<or> type_tok p \<noteq> tt_prefix \<longrightarrow>
           parseSubscript eng rest base startPos startLoc' p = rest base p)"
  using assms
  by (auto simp: parseSubscript_def match_tok_def finishNode_def Let_def set_node_expression_sel
      split: sum.splits)

lemma acorn_finishNode_sel:
  "node_type (acorn_finishNode e l n ty) = ty"
  "node_start (acorn_finishNode e l n ty) = node_start n"
  "node_expression (acorn_finishNode e l n ty) = node_expression n"
  by (cases n; simp add: acorn_finishNode_def Let_def split: option.splits)+

theorem parseSubscript_non_null_witness:
  "\<not> hasPrecedingLineBreak (table_engine tokens_bang) parser_bang \<and>
   value_tok parser_bang = JStr ''!'' \<and> type_tok parser_bang = tt_prefix \<and>
   (\<exists>n p1. parseSubscript (table_engine tokens_bang) (\<lambda>b q. Inr (b, q)) ident_ab 0 position0
              parser_bang = Inr (n, p1) \<and>
           node_type n = ''TSNonNullExpression'' \<and> node_expression n = Some ident_ab \<and>
           node_start n = 0 \<and> type_tok p1 = tt_semi \<and> exprAllowed p1) \<and>
   hasPrecedingLineBreak (table_engine tokens_newline_bang) parser_newline_bang \<and>
   parseSubscript (table_engine tokens_newline_bang) (\<lambda>b q. Inr (b, q)) ident_ab 0 position0
     parser_newline_bang = Inr (ident_ab, parser_newline_bang)"
proof -
  let ?eng = "table_engine tokens_bang"
  let ?eng' = "table_engine tokens_newline_bang"
  have c1: "\<And>toks. \<forall>a l q. node_type (startNodeAt (table_engine toks) a l q) = [] \<and>
                         node_start (startNodeAt (table_engine toks) a l q) = a"
    by (simp add: table_engine_def new_node_def)
  have c2: "\<And>toks. \<forall>q n ty. node_type (super_finishNode (table_engine toks) q n ty) = ty \<and>
           node_start (super_finishNode (table_engine toks) q n ty) = node_start n \<and>
           node_expression (super_finishNode (table_engine toks) q n ty) = node_expression n"
    by (simp add: table_engine_def acorn_finishNode_sel)
  have a: "\<not> hasPrecedingLineBreak ?eng parser_bang" "value_tok parser_bang = JStr ''!''"
    "type_tok parser_bang = tt_prefix"
    by (simp_all add: hasPrecedingLineBreak_def table_engine_def parser_bang_def parser0_def
        slice_def position_at_def is_line_terminator_def)
  obtain p1 where n: "next_tok ?eng (parser_bang\<lparr> exprAllowed := False \<rparr>) = Inr p1"
    and p1: "type_tok p1 = tt_semi" "exprAllowed p1"
    by (simp add: table_engine_def table_eval tokens_bang_def parser_bang_def parser0_def)
  have b: "hasPrecedingLineBreak ?eng' parser_newline_bang"
    by (simp add: hasPrecedingLineBreak_def table_engine_def parser_newline_bang_def parser0_def
        slice_def position_at_def is_line_terminator_def)
  from parseSubscript_non_null[where eng = ?eng and p = parser_bang and
      rest = "\<lambda>b q. Inr (b, q)" and base = ident_ab and startPos = 0 and startLoc' = position0,
      OF c1 c2] a n
  obtain n where "parseSubscript ?eng (\<lambda>b q. Inr (b, q)) ident_ab 0 position0 parser_bang = Inr (n, p1)"
    "node_type n = ''TSNonNullExpression''" "node_expression n = Some ident_ab" "node_start n = 0"
    by blast
  moreover from parseSubscript_non_null[where eng = ?eng' and p = parser_newline_bang and
      rest = "\<lambda>b q. Inr (b, q)" and base = ident_ab and startPos = 0 and startLoc' = position0,
      OF c1 c2] b
  have "parseSubscript ?eng' (\<lambda>b q. Inr (b, q)) ident_ab 0 position0 parser_newline_bang =
          Inr (ident_ab, parser_newline_bang)"
    by blast
  ultimately show ?thesis
    using a b p1 by blast
qed

subsection \<open>Tuple element validation\<close>

lemma raise_TSError_recording:
  "\<not> raiseRecoverable_throws p \<Longrightarrow>
   raise eng at (TSError m) p = Inr (p\<lparr> reported := reported p @ [(at, TSError m)] \<rparr>)"
  by (simp add: raise_def raiseCommonCheck_def super_raiseRecoverable_def)

lemma raise_TSError_throwing:
  "raiseRecoverable_throws p \<Longrightarrow> raise eng at (TSError m) p = Inl (SyntaxError at (TSError m))"
  by (simp add: raise_def raiseCommonCheck_def super_raiseRecoverable_def)

lemma callback_recording:
  assumes "\<not> raiseRecoverable_throws p" "rest_has_argument e"
  shows "tsParseTupleType_callback eng (seen, lab) e p =
     Inr ((seen \<or> is_optional_element e, Some (case lab of None \<Rightarrow> is_labeled e | Some l \<Rightarrow> l)),
          p\<lparr> reported := reported p @ element_diagnostics seen lab e \<rparr>)"
proof (cases "node_type e = ''TSRestType''")
  case True
  with assms(2) obtain c where c: "node_typeAnnotation e = Some c"
    by (auto simp: rest_has_argument_def)
  show ?thesis
    using assms(1) True c
    by (cases lab)
       (auto simp add: tsParseTupleType_callback_def Let_def raise_TSError_recording
         element_diagnostics_def is_rest_element_def is_optional_element_def is_labeled_def
         label_node_def)
next
  case False
  show ?thesis
    using assms(1) False
    by (cases lab)
       (auto simp add: tsParseTupleType_callback_def Let_def raise_TSError_recording
         element_diagnostics_def is_rest_element_def is_optional_element_def is_labeled_def
         label_node_def)
qed

lemma callback_throwing:
  assumes "raiseRecoverable_throws p" "rest_has_argument e"
  shows "tsParseTupleType_callback eng (seen, lab) e p =
     (case element_diagnostics seen lab e of
        [] \<Rightarrow> Inr ((seen \<or> is_optional_element e,
                     Some (case lab of None \<Rightarrow> is_labeled e | Some l \<Rightarrow> l)), p)
      | (at, m) # ds \<Rightarrow> Inl (SyntaxError at m))"
proof (cases "node_type e = ''TSRestType''")
  case True
  with assms(2) obtain c where c: "node_typeAnnotation e = Some c"
    by (auto simp: rest_has_argument_def)
  show ?thesis
    using assms(1) True c
    by (cases lab)
       (auto simp add: tsParseTupleType_callback_def Let_def raise_TSError_throwing
         element_diagnostics_def is_rest_element_def is_optional_element_def is_labeled_def
         label_node_def)
next
  case False
  show ?thesis
    using assms(1) False
    by (cases lab)
       (auto simp add: tsParseTupleType_callback_def Let_def raise_TSError_throwing
         element_diagnostics_def is_rest_element_def is_optional_element_def is_labeled_def
         label_node_def)
qed

lemma forEach_recording:
  "\<not> raiseRecoverable_throws p \<Longrightarrow> \<forall>e\<in>set es. rest_has_argument e \<Longrightarrow>
   \<exists>vars. forEach (tsParseTupleType_callback eng) (seen, lab) es p =
     Inr (vars, p\<lparr> reported := reported p @ tuple_diagnostics seen lab es \<rparr>)"
proof (induction es arbitrary: seen lab p)
  case Nil
  then show ?case by simp
next
  case (Cons e es)
  let ?p' = "p\<lparr> reported := reported p @ element_diagnostics seen lab e \<rparr>"
  have "\<not> raiseRecoverable_throws ?p'" using Cons.prems by simp
  from Cons.IH[OF this, of "seen \<or> is_optional_element e"
      "Some (case lab of None \<Rightarrow> is_labeled e | Some l \<Rightarrow> l)"] Cons.prems(2)
  obtain vars where "forEach (tsParseTupleType_callback eng)
      (seen \<or> is_optional_element e, Some (case lab of None \<Rightarrow> is_labeled e | Some l \<Rightarrow> l)) es ?p'
      = Inr (vars, ?p'\<lparr> reported := reported ?p' @ tuple_diagnostics (seen \<or> is_optional_element e)
          (Some (case lab of None \<Rightarrow> is_labeled e | Some l \<Rightarrow> l)) es \<rparr>)"
    by auto
  then show ?case
    using Cons.prems by (simp add: callback_recording)
qed

lemma forEach_throwing:
  "raiseRecoverable_throws p \<Longrightarrow> \<forall>e\<in>set es. rest_has_argument e \<Longrightarrow>
   (case tuple_diagnostics seen lab es of
      [] \<Rightarrow> \<exists>vars. forEach (tsParseTupleType_callback eng) (seen, lab) es p = Inr (vars, p)
    | (at, m) # ds \<Rightarrow>
        forEach (tsParseTupleType_callback eng) (seen, lab) es p = Inl (SyntaxError at m))"
proof (induction es arbitrary: seen lab)
  case Nil
  then show ?case by simp
next
  case (Cons e es)
  show ?case
  proof (cases "element_diagnostics seen lab e")
    case Nil
    with Cons.IH[OF Cons.prems(1), of "seen \<or> is_optional_element e"
      "Some (case lab of None \<Rightarrow> is_labeled e | Some l \<Rightarrow> l)"] Cons.prems
    show ?thesis
      by (auto simp add: callback_throwing split: list.splits)
  next
    case (Cons d ds)
    with Cons.prems show ?thesis
      by (cases d) (simp add: callback_throwing)
  qed
qed


lemma diag_optional:
  "i < length es \<Longrightarrow> seen \<or> (\<exists>j<i. is_optional_element (es ! j)) \<Longrightarrow>
   \<not> is_rest_element (es ! i) \<Longrightarrow> \<not> is_optional_element (es ! i) \<Longrightarrow>
   (node_start (es ! i), TSError OptionalTypeBeforeRequired) \<in> set (tuple_diagnostics seen lab es)"
proof (induction es arbitrary: seen lab i)
  case Nil
  then show ?case by simp
next
  case (Cons e es)
  show ?case
  proof (cases i)
    case 0
    with Cons.prems show ?thesis by (simp add: element_diagnostics_def)
  next
    case (Suc k)
    have "seen \<or> is_optional_element e \<or> (\<exists>j<k. is_optional_element (es ! j))"
      using Cons.prems(2) Suc by (auto simp: less_Suc_eq_0_disj)
    then have "(node_start (es ! k), TSError OptionalTypeBeforeRequired)
        \<in> set (tuple_diagnostics (seen \<or> is_optional_element e)
                 (Some (case lab of None \<Rightarrow> is_labeled e | Some l \<Rightarrow> l)) es)"
      using Cons.prems Suc by (intro Cons.IH) auto
    then show ?thesis using Suc by (simp add: element_diagnostics_def)
  qed
qed

lemma diag_mixed_Some:
  "i < length es \<Longrightarrow> is_labeled (es ! i) \<noteq> l \<Longrightarrow>
   (node_start (label_node (es ! i)), TSError MixedLabeledAndUnlabeledElements)
     \<in> set (tuple_diagnostics seen (Some l) es)"
proof (induction es arbitrary: seen i)
  case Nil
  then show ?case by simp
next
  case (Cons e es)
  show ?case
  proof (cases i)
    case 0
    with Cons.prems show ?thesis by (auto simp: element_diagnostics_def)
  next
    case (Suc k)
    then show ?thesis using Cons.prems Cons.IH[of k] by (simp add: element_diagnostics_def)
  qed
qed

lemma diag_mixed:
  "i < length es \<Longrightarrow> is_labeled (es ! i) \<noteq> is_labeled (es ! 0) \<Longrightarrow>
   (node_start (label_node (es ! i)), TSError MixedLabeledAndUnlabeledElements)
     \<in> set (tuple_diagnostics seen None es)"
proof (cases es)
  case Nil
  assume "i < length es" with Nil show ?thesis by simp
next
  case (Cons e es')
  assume a: "i < length es" "is_labeled (es ! i) \<noteq> is_labeled (es ! 0)"
  then obtain k where k: "i = Suc k" using Cons by (cases i) auto
  with a Cons have "(node_start (label_node (es' ! k)), TSError MixedLabeledAndUnlabeledElements)
     \<in> set (tuple_diagnostics (seen \<or> is_optional_element e) (Some (is_labeled e)) es')"
    by (intro diag_mixed_Some) auto
  then show ?thesis using Cons k by (simp add: element_diagnostics_def)
qed


lemma diag_none:
  assumes h1: "seen \<longrightarrow> (\<forall>e\<in>set es. is_rest_element e \<or> is_optional_element e)"
    and h2: "\<forall>i<length es. \<forall>j<i. is_optional_element (es ! j) \<longrightarrow>
        is_rest_element (es ! i) \<or> is_optional_element (es ! i)"
    and h3: "\<forall>e\<in>set es. is_labeled e = l0"
    and h4: "lab = None \<or> lab = Some l0"
  shows "tuple_diagnostics seen lab es = []"
  using h1 h2 h3 h4
proof (induction es arbitrary: seen lab)
  case Nil
  then show ?case by simp
next
  case (Cons e es)
  have lab': "(case lab of None \<Rightarrow> is_labeled e | Some l \<Rightarrow> l) = l0"
    using Cons.prems(3,4) by (cases lab) simp_all
  have e0: "element_diagnostics seen lab e = []"
    using Cons.prems(1,3) lab' by (simp add: element_diagnostics_def)
  have 1: "seen \<or> is_optional_element e \<longrightarrow>
             (\<forall>x\<in>set es. is_rest_element x \<or> is_optional_element x)"
  proof (intro impI ballI)
    fix x assume s: "seen \<or> is_optional_element e" and x: "x \<in> set es"
    from x obtain k where k: "k < length es" "es ! k = x"
      by (auto simp: in_set_conv_nth)
    show "is_rest_element x \<or> is_optional_element x"
    proof (cases seen)
      case True
      with Cons.prems(1) x show ?thesis by simp
    next
      case False
      with s have o: "is_optional_element ((e # es) ! 0)" by simp
      have "Suc k < length (e # es)" "0 < Suc k" using k by simp_all
      with Cons.prems(2) o have "is_rest_element ((e # es) ! Suc k) \<or> is_optional_element ((e # es) ! Suc k)"
        by blast
      with k show ?thesis by simp
    qed
  qed
  have 2: "\<forall>i<length es. \<forall>j<i. is_optional_element (es ! j) \<longrightarrow>
        is_rest_element (es ! i) \<or> is_optional_element (es ! i)"
  proof (intro allI impI)
    fix i j assume a: "i < length es" "j < i" "is_optional_element (es ! j)"
    then have "Suc i < length (e # es)" "Suc j < Suc i" "is_optional_element ((e # es) ! Suc j)"
      by simp_all
    with Cons.prems(2) have "is_rest_element ((e # es) ! Suc i) \<or> is_optional_element ((e # es) ! Suc i)"
      by blast
    then show "is_rest_element (es ! i) \<or> is_optional_element (es ! i)" by simp
  qed
  have 3: "\<forall>x\<in>set es. is_labeled x = l0"
    using Cons.prems(3) by simp
  have "tuple_diagnostics (seen \<or> is_optional_element e) (Some l0) es = []"
    using 1 2 3 by (rule Cons.IH) simp
  then show ?case
    using e0 lab' by simp
qed

lemma tuple_diagnostics_messages:
  "(at, m) \<in> set (tuple_diagnostics seen lab es) \<Longrightarrow>
   m = TSError OptionalTypeBeforeRequired \<or> m = TSError MixedLabeledAndUnlabeledElements"
  by (induction es arbitrary: seen lab) (auto simp: element_diagnostics_def split: if_splits)

lemma mixes_labels_first:
  assumes "mixes_labels es"
  shows "\<exists>i<length es. is_labeled (es ! i) \<noteq> is_labeled (es ! 0)"
proof -
  from assms obtain i j where ij: "i < length es" "j < length es"
      "is_labeled (es ! i) \<noteq> is_labeled (es ! j)"
    by (auto simp: mixes_labels_def)
  then have "is_labeled (es ! i) \<noteq> is_labeled (es ! 0) \<or> is_labeled (es ! j) \<noteq> is_labeled (es ! 0)"
    by auto
  with ij show ?thesis by blast
qed

lemma no_violation_no_diagnostics:
  assumes "\<forall>i. \<not> required_after_optional es i" and "\<not> mixes_labels es"
  shows "tuple_diagnostics False None es = []"
proof (rule diag_none[where ?l0.0 = "is_labeled (es ! 0)"])
  show "False \<longrightarrow> (\<forall>e\<in>set es. is_rest_element e \<or> is_optional_element e)"
    by simp
  show "\<forall>i<length es. \<forall>j<i. is_optional_element (es ! j) \<longrightarrow>
          is_rest_element (es ! i) \<or> is_optional_element (es ! i)"
    using assms(1) by (auto simp: required_after_optional_def)
  show "\<forall>e\<in>set es. is_labeled e = is_labeled (es ! 0)"
  proof
    fix e assume "e \<in> set es"
    then obtain i where i: "i < length es" "es ! i = e"
      by (auto simp: in_set_conv_nth)
    then have "0 < length es" by auto
    with assms(2) i show "is_labeled e = is_labeled (es ! 0)"
      by (auto simp: mixes_labels_def)
  qed
  show "None = None \<or> None = Some (is_labeled (es ! 0))"
    by simp
qed

lemma violation_diagnostics_nonempty:
  assumes "(\<exists>i. required_after_optional es i) \<or> mixes_labels es"
  shows "tuple_diagnostics False None es \<noteq> []"
proof -
  from assms have "\<exists>d. d \<in> set (tuple_diagnostics False None es)"
  proof
    assume "\<exists>i. required_after_optional es i"
    then obtain i where "required_after_optional es i" ..
    then have "(node_start (es ! i), TSError OptionalTypeBeforeRequired)
        \<in> set (tuple_diagnostics False None es)"
      unfolding required_after_optional_def by (intro diag_optional) auto
    then show ?thesis ..
  next
    assume "mixes_labels es"
    from mixes_labels_first[OF this] obtain i where "i < length es"
        "is_labeled (es ! i) \<noteq> is_labeled (es ! 0)"
      by blast
    then have "(node_start (label_node (es ! i)), TSError MixedLabeledAndUnlabeledElements)
        \<in> set (tuple_diagnostics False None es)"
      by (rule diag_mixed)
    then show ?thesis ..
  qed
  then show ?thesis by auto
qed

text \<open>
  C7. Let the element list \<open>es\<close> be parsed, each rest element with its argument.
  Where the base engine's \<^verbatim>\<open>raiseRecoverable\<close> records and returns, \<^verbatim>\<open>tsParseTupleType\<close>
  returns the tuple node and has reported, for every element that is neither a rest
  nor an optional element and comes after an optional element, the
  optional-before-required error at the start of that element, and for every element
  whose labeledness (that of the argument, for a rest element) differs from the first
  element's, the mixed-labels error at the start of the checked node; so any mix of
  labeled and unlabeled elements is reported. A list with neither defect, such as
  that of \<^verbatim>\<open>[string, number?]\<close>, adds no diagnostic. Where \<^verbatim>\<open>raiseRecoverable\<close> throws
  (the default of the base engine), a list with a defect makes \<^verbatim>\<open>tsParseTupleType\<close>
  throw the SyntaxError of the first of these diagnostics, and a list without
  returns the node.
\<close>

theorem tsParseTupleType_validation:
  assumes "tsParseBracketedList p = Inr (es, p1)"
    and "\<forall>e\<in>set es. rest_has_argument e"
  shows
    "(\<not> raiseRecoverable_throws p1 \<longrightarrow>
        (\<exists>n p2 ds. tsParseTupleType eng tsParseBracketedList p = Inr (n, p2) \<and>
           reported p2 = reported p1 @ ds \<and>
           (\<forall>i. required_after_optional es i \<longrightarrow>
                (node_start (es ! i), TSError OptionalTypeBeforeRequired) \<in> set ds) \<and>
           (\<forall>i<length es. is_labeled (es ! i) \<noteq> is_labeled (es ! 0) \<longrightarrow>
                (node_start (label_node (es ! i)), TSError MixedLabeledAndUnlabeledElements)
                  \<in> set ds) \<and>
           (mixes_labels es \<longrightarrow>
                (\<exists>at. (at, TSError MixedLabeledAndUnlabeledElements) \<in> set ds)) \<and>
           ((\<forall>i. \<not> required_after_optional es i) \<and> \<not> mixes_labels es \<longrightarrow> ds = []))) \<and>
     (raiseRecoverable_throws p1 \<longrightarrow>
        ((\<exists>i. required_after_optional es i) \<or> mixes_labels es \<longrightarrow>
           (\<exists>at m. tsParseTupleType eng tsParseBracketedList p = Inl (SyntaxError at (TSError m)) \<and>
                   (m = OptionalTypeBeforeRequired \<or> m = MixedLabeledAndUnlabeledElements))) \<and>
        ((\<forall>i. \<not> required_after_optional es i) \<and> \<not> mixes_labels es \<longrightarrow>
           (\<exists>n. tsParseTupleType eng tsParseBracketedList p = Inr (n, p1))))"
proof (intro conjI impI)
  assume rec: "\<not> raiseRecoverable_throws p1"
  let ?ds = "tuple_diagnostics False None es"
  from forEach_recording[where eng = eng and seen = False and lab = None, OF rec assms(2)]
  obtain vars where fe: "forEach (tsParseTupleType_callback eng) (False, None) es p1 =
      Inr (vars, p1\<lparr> reported := reported p1 @ ?ds \<rparr>)"
    by blast
  have a: "\<forall>i. required_after_optional es i \<longrightarrow>
             (node_start (es ! i), TSError OptionalTypeBeforeRequired) \<in> set ?ds"
    unfolding required_after_optional_def by (auto intro: diag_optional)
  have b: "\<forall>i<length es. is_labeled (es ! i) \<noteq> is_labeled (es ! 0) \<longrightarrow>
             (node_start (label_node (es ! i)), TSError MixedLabeledAndUnlabeledElements) \<in> set ?ds"
    by (auto intro: diag_mixed)
  have c: "mixes_labels es \<longrightarrow> (\<exists>at. (at, TSError MixedLabeledAndUnlabeledElements) \<in> set ?ds)"
    using b mixes_labels_first by blast
  have d: "(\<forall>i. \<not> required_after_optional es i) \<and> \<not> mixes_labels es \<longrightarrow> ?ds = []"
    using no_violation_no_diagnostics by blast
  have "\<exists>n. tsParseTupleType eng tsParseBracketedList p =
           Inr (n, p1\<lparr> reported := reported p1 @ ?ds \<rparr>)"
    using assms(1) fe by (simp add: tsParseTupleType_def Let_def)
  moreover have "reported (p1\<lparr> reported := reported p1 @ ?ds \<rparr>) = reported p1 @ ?ds"
    by simp
  ultimately show "\<exists>n p2 ds. tsParseTupleType eng tsParseBracketedList p = Inr (n, p2) \<and>
           reported p2 = reported p1 @ ds \<and>
           (\<forall>i. required_after_optional es i \<longrightarrow>
                (node_start (es ! i), TSError OptionalTypeBeforeRequired) \<in> set ds) \<and>
           (\<forall>i<length es. is_labeled (es ! i) \<noteq> is_labeled (es ! 0) \<longrightarrow>
                (node_start (label_node (es ! i)), TSError MixedLabeledAndUnlabeledElements)
                  \<in> set ds) \<and>
           (mixes_labels es \<longrightarrow>
                (\<exists>at. (at, TSError MixedLabeledAndUnlabeledElements) \<in> set ds)) \<and>
           ((\<forall>i. \<not> required_after_optional es i) \<and> \<not> mixes_labels es \<longrightarrow> ds = [])"
    using a b c d by blast
next
  assume thr: "raiseRecoverable_throws p1"
    and v: "(\<exists>i. required_after_optional es i) \<or> mixes_labels es"
  from violation_diagnostics_nonempty[OF v]
  obtain at m ds where ds: "tuple_diagnostics False None es = (at, m) # ds"
    by (cases "tuple_diagnostics False None es") auto
  then have "(at, m) \<in> set (tuple_diagnostics False None es)"
    by simp
  from tuple_diagnostics_messages[OF this]
  obtain m' where m': "m = TSError m'"
      "m' = OptionalTypeBeforeRequired \<or> m' = MixedLabeledAndUnlabeledElements"
    by blast
  from forEach_throwing[where eng = eng and seen = False and lab = None, OF thr assms(2)] ds
  have "forEach (tsParseTupleType_callback eng) (False, None) es p1 = Inl (SyntaxError at m)"
    by simp
  then have "tsParseTupleType eng tsParseBracketedList p = Inl (SyntaxError at (TSError m'))"
    using assms(1) m' by (simp add: tsParseTupleType_def Let_def)
  with m' show "\<exists>at m. tsParseTupleType eng tsParseBracketedList p = Inl (SyntaxError at (TSError m)) \<and>
                   (m = OptionalTypeBeforeRequired \<or> m = MixedLabeledAndUnlabeledElements)"
    by blast
next
  assume thr: "raiseRecoverable_throws p1"
    and nv: "(\<forall>i. \<not> required_after_optional es i) \<and> \<not> mixes_labels es"
  then have "tuple_diagnostics False None es = []"
    using no_violation_no_diagnostics by blast
  with forEach_throwing[where eng = eng and seen = False and lab = None, OF thr assms(2)]
  obtain vars where "forEach (tsParseTupleType_callback eng) (False, None) es p1 = Inr (vars, p1)"
    by auto
  then show "\<exists>n. tsParseTupleType eng tsParseBracketedList p = Inr (n, p1)"
    using assms(1) by (simp add: tsParseTupleType_def Let_def)
qed

lemmas node_defs = leaf_node_def acorn_finishNode_def new_node_def Let_def position_at_def
lemmas pred_defs = is_rest_element_def is_optional_element_def is_labeled_def label_node_def
  rest_has_argument_def required_after_optional_def mixes_labels_def

lemma tuple_string_optnumber_facts:
  "\<forall>e\<in>set tuple_string_optnumber. rest_has_argument e"
  "\<forall>i. \<not> required_after_optional tuple_string_optnumber i"
  "\<not> mixes_labels tuple_string_optnumber"
  by (auto simp: tuple_string_optnumber_def node_defs pred_defs less_Suc_eq)

lemma tuple_optnumber_string_facts:
  "\<forall>e\<in>set tuple_optnumber_string. rest_has_argument e"
  "required_after_optional tuple_optnumber_string 1"
  "node_start (tuple_optnumber_string ! 1) = 10"
  by (auto simp: tuple_optnumber_string_def node_defs pred_defs)

lemma tuple_named_unnamed_facts:
  "\<forall>e\<in>set tuple_named_unnamed. rest_has_argument e"
  "1 < length tuple_named_unnamed"
  "is_labeled (tuple_named_unnamed ! 1) \<noteq> is_labeled (tuple_named_unnamed ! 0)"
  "node_start (label_node (tuple_named_unnamed ! 1)) = 12"
  by (auto simp: tuple_named_unnamed_def node_defs pred_defs)

lemma tuple_optnumber_string_throws: "tsParseTupleType (table_engine []) (\<lambda>p. Inr (tuple_optnumber_string, p))
     (parser0\<lparr> raiseRecoverable_throws := True \<rparr>) =
     Inl (SyntaxError 10 (TSError OptionalTypeBeforeRequired))"
  by (simp add: tsParseTupleType_def tsParseTupleType_callback_def tuple_optnumber_string_def
      node_defs raise_def raiseCommonCheck_def super_raiseRecoverable_def)

theorem tsParseTupleType_validation_witness:
  "(\<exists>n p2. tsParseTupleType (table_engine []) (\<lambda>p. Inr (tuple_string_optnumber, p)) parser0 =
            Inr (n, p2) \<and> reported p2 = []) \<and>
   (\<exists>n p2. tsParseTupleType (table_engine []) (\<lambda>p. Inr (tuple_optnumber_string, p)) parser0 =
            Inr (n, p2) \<and> (10, TSError OptionalTypeBeforeRequired) \<in> set (reported p2)) \<and>
   (\<exists>n p2. tsParseTupleType (table_engine []) (\<lambda>p. Inr (tuple_named_unnamed, p)) parser0 =
            Inr (n, p2) \<and> (12, TSError MixedLabeledAndUnlabeledElements) \<in> set (reported p2)) \<and>
   tsParseTupleType (table_engine []) (\<lambda>p. Inr (tuple_optnumber_string, p))
     (parser0\<lparr> raiseRecoverable_throws := True \<rparr>) =
     Inl (SyntaxError 10 (TSError OptionalTypeBeforeRequired))"
proof -
  have r: "\<not> raiseRecoverable_throws parser0" "reported parser0 = []"
    by (simp_all add: parser0_def)
  have 1: "\<exists>n p2. tsParseTupleType (table_engine []) (\<lambda>p. Inr (tuple_string_optnumber, p)) parser0 =
            Inr (n, p2) \<and> reported p2 = []"
    using tsParseTupleType_validation[where tsParseBracketedList = "\<lambda>p. Inr (tuple_string_optnumber, p)"
        and p = parser0 and ?p1.0 = parser0 and es = tuple_string_optnumber and eng = "table_engine []",
        OF refl tuple_string_optnumber_facts(1)] r tuple_string_optnumber_facts(2,3)
    by fastforce
  have 2: "\<exists>n p2. tsParseTupleType (table_engine []) (\<lambda>p. Inr (tuple_optnumber_string, p)) parser0 =
            Inr (n, p2) \<and> (10, TSError OptionalTypeBeforeRequired) \<in> set (reported p2)"
    using tsParseTupleType_validation[where tsParseBracketedList = "\<lambda>p. Inr (tuple_optnumber_string, p)"
        and p = parser0 and ?p1.0 = parser0 and es = tuple_optnumber_string and eng = "table_engine []",
        OF refl tuple_optnumber_string_facts(1)] r tuple_optnumber_string_facts(2,3)
    by fastforce
  have 3: "\<exists>n p2. tsParseTupleType (table_engine []) (\<lambda>p. Inr (tuple_named_unnamed, p)) parser0 =
            Inr (n, p2) \<and> (12, TSError MixedLabeledAndUnlabeledElements) \<in> set (reported p2)"
    using tsParseTupleType_validation[where tsParseBracketedList = "\<lambda>p. Inr (tuple_named_unnamed, p)"
        and p = parser0 and ?p1.0 = parser0 and es = tuple_named_unnamed and eng = "table_engine []",
        OF refl tuple_named_unnamed_facts(1)] r tuple_named_unnamed_facts(2,3,4)
    by fastforce
  from 1 2 3 tuple_optnumber_string_throws show ?thesis by blast
qed

subsection \<open>Ambient variable statements\<close>

lemma parseVarStatement_body_not_allowed:
  assumes "node_init d = Some init" and "node_id d = Some ident"
    and "kind \<noteq> ''const'' \<or> node_typeAnnotation ident \<noteq> None"
  shows "parseVarStatement_body eng kind vars d p =
           map_sum (\<lambda>e. e) (Pair ())
             (raise eng (node_start init) (TSError InitializerNotAllowedInAmbientContext) p)"
  using assms by (auto simp: parseVarStatement_body_def)

lemma parseVarStatement_body_literal_types:
  assumes "node_init d = Some init" and "node_id d = Some ident"
    and "node_typeAnnotation ident = None"
    and "node_type init \<in> {''StringLiteral'', ''BooleanLiteral'', ''NumericLiteral'', ''BigIntLiteral''}"
  shows "parseVarStatement_body eng ''const'' vars d p = Inr ((), p)"
  using assms by (auto simp: parseVarStatement_body_def)

lemma parseVarStatement_body_Literal:
  assumes "node_init d = Some init" and "node_id d = Some ident"
    and "node_typeAnnotation ident = None" and "node_type init = ''Literal''"
  shows "parseVarStatement_body eng ''const'' vars d p =
           map_sum (\<lambda>e. e) (Pair ())
             (raise eng (node_start init)
                (TSError ConstInitiailizerMustBeStringOrNumericLiteralOrLiteralEnumReference) p)"
  using assms by (simp add: parseVarStatement_body_def isPossiblyLiteralEnum_def)

lemmas parseVarStatement_eval =
  parseVarStatement_def parseVarStatement_body_def engine_declaring_def table_engine_def
  table_eval declarator_def node_defs parser_declare_def parser0_def finishNode_def
  isPossiblyLiteralEnum_def raise_def raiseCommonCheck_def super_raiseRecoverable_def

text \<open>
  C4 at \<^verbatim>\<open>declare const X = "a"\<close>. The initializer that the base engine builds for the
  string has the type \<^verbatim>\<open>Literal\<close>; the test of \<^verbatim>\<open>parseVarStatement\<close> looks for
  \<^verbatim>\<open>StringLiteral\<close>, \<^verbatim>\<open>BooleanLiteral\<close>, \<^verbatim>\<open>NumericLiteral\<close> and \<^verbatim>\<open>BigIntLiteral\<close>, so the
  statement gets the const-initializer diagnostic at offset 18 (reported, or thrown
  where \<^verbatim>\<open>raiseRecoverable\<close> throws). The same declarator with the type \<^verbatim>\<open>StringLiteral\<close>
  on the initializer passes. With the kind \<^verbatim>\<open>let\<close>, or with a type annotation on the
  identifier (\<^verbatim>\<open>declare const x: number = 1\<close>), the diagnostic is the ambient-initializer
  error at the start of the initializer.
\<close>

theorem parseVarStatement_declare_const_string_literal:
  "(\<exists>n p'. parseVarStatement (engine_declaring [declarator_X_Literal]) (new_node 0 position0)
            ''const'' True parser_declare = Inr (n, p') \<and>
          node_declarations n = [declarator_X_Literal] \<and>
          reported p' =
            [(18, TSError ConstInitiailizerMustBeStringOrNumericLiteralOrLiteralEnumReference)]) \<and>
   parseVarStatement (engine_declaring [declarator_X_Literal]) (new_node 0 position0)
     ''const'' True (parser_declare\<lparr> raiseRecoverable_throws := True \<rparr>) =
     Inl (SyntaxError 18 (TSError ConstInitiailizerMustBeStringOrNumericLiteralOrLiteralEnumReference)) \<and>
   (\<exists>n p'. parseVarStatement (engine_declaring [declarator_X_StringLiteral]) (new_node 0 position0)
            ''const'' True parser_declare = Inr (n, p') \<and> reported p' = []) \<and>
   (\<exists>n p'. parseVarStatement (engine_declaring [declarator_X_Literal]) (new_node 0 position0)
            ''let'' True parser_declare = Inr (n, p') \<and>
          reported p' = [(18, TSError InitializerNotAllowedInAmbientContext)]) \<and>
   (\<exists>n p'. parseVarStatement (engine_declaring [declarator_x_number_1]) (new_node 0 position0)
            ''const'' True parser_declare = Inr (n, p') \<and>
          reported p' = [(26, TSError InitializerNotAllowedInAmbientContext)])"
  by (simp add: parseVarStatement_eval declarator_X_Literal_def declarator_X_StringLiteral_def
      declarator_x_number_1_def)

subsection \<open>Type bindings in declareName\<close>

lemmas bind_defs = BIND_FLAGS_TS_IMPORT_def BIND_FLAGS_TS_EXPORT_ONLY_def BIND_KIND_TYPE_def
  BIND_KIND_VALUE_def BIND_FLAGS_TS_ENUM_def BIND_FLAGS_TS_CONST_ENUM_def BIND_FLAGS_CLASS_def
  BIND_TS_TYPE_def BIND_TS_INTERFACE_def

text \<open>
  \<^verbatim>\<open>BIND_KIND_VALUE\<close> is 0, so the first test of \<^verbatim>\<open>isRedeclaredInScope\<close> returns
  \<^verbatim>\<open>false\<close> for every scope, name and binding type; none of its other tests looks at
  \<^verbatim>\<open>scope.types\<close>.
\<close>

lemma isRedeclaredInScope_never:
  "isRedeclaredInScope eng scope name bindingType = False"
  by (simp add: isRedeclaredInScope_def BIND_KIND_VALUE_def)

text \<open>
  \<^verbatim>\<open>BIND_KIND_TYPE\<close> is 0 as well, so the branch of \<^verbatim>\<open>declareName\<close> that checks a type
  binding and pushes the name on \<^verbatim>\<open>scope.types\<close> never runs: for a binding that is
  neither an import nor export-only, the \<^verbatim>\<open>types\<close> arrays and the diagnostics are those
  that \<^verbatim>\<open>super.declareName\<close> left.
\<close>

lemma declareName_types_untouched:
  assumes "(bindingType AND BIND_FLAGS_TS_IMPORT) = 0"
    and "(bindingType AND BIND_FLAGS_TS_EXPORT_ONLY) = 0"
    and "scopeStack p \<noteq> []"
    and "super_declareName eng name bindingType at p = Inr p1"
  shows "\<exists>p2. declareName eng name bindingType at p = Inr p2 \<and>
              map scope_types (scopeStack p2) = map scope_types (scopeStack p1) \<and>
              reported p2 = reported p1"
  using assms
  by (simp add: declareName_def currentScope_def BIND_KIND_TYPE_def Let_def update_currentScope_def
      map_butlast[symmetric] snoc_eq_iff_butlast last_map)

text \<open>
  C5 at \<^verbatim>\<open>type T = number; type T = string\<close>: \<^verbatim>\<open>tsParseTypeAliasDeclaration\<close> declares
  \<^verbatim>\<open>T\<close> with \<^verbatim>\<open>BIND_TS_TYPE\<close> (line 2720) twice in the same scope. Neither call looks at
  or adds to the type names of the scope, and the second call raises nothing.
\<close>

theorem declareName_type_alias_twice:
  "\<exists>p1 p2.
     declareName (table_engine []) ''T'' BIND_TS_TYPE 5 parser0 = Inr p1 \<and>
     declareName (table_engine []) ''T'' BIND_TS_TYPE 22 p1 = Inr p2 \<and>
     map scope_types (scopeStack p1) = [[]] \<and>
     map scope_types (scopeStack p2) = [[]] \<and>
     map scope_var (scopeStack p2) = [[''T'', ''T'']] \<and>
     reported p2 = [] \<and>
     \<not> isRedeclaredInScope (table_engine []) (last (scopeStack p1)) ''T'' BIND_TS_TYPE"
  by (simp add: declareName_def currentScope_def bind_defs Let_def update_currentScope_def
      table_engine_def parser0_def scope0_def isRedeclaredInScope_def)

text \<open>
  In particular the second declaration of \<^verbatim>\<open>T\<close> is accepted: both calls return and the
  parser holds no diagnostic after them.
\<close>

theorem declareName_type_alias_twice_witness:
  "\<exists>p1 p2.
     declareName (table_engine []) ''T'' BIND_TS_TYPE 5 parser0 = Inr p1 \<and>
     declareName (table_engine []) ''T'' BIND_TS_TYPE 22 p1 = Inr p2 \<and>
     reported p2 = []"
  using declareName_type_alias_twice
  apply (elim exE conjE)
  subgoal for p1 p2
    apply (rule exI[of _ p1], rule exI[of _ p2])
    apply (intro conjI; assumption)
    done
  done

subsection \<open>Modifier lists\<close>




















































end
